theory Spec2Isabelle
  imports Main
begin

section \<open>The wallet manager of \<^verbatim>\<open>plugins/wallet_plugin/wallet_manager.cpp\<close>\<close>

text \<open>
  The manager owns a registry of named wallets, an inactivity timeout and a wallet
  directory. Every member function of \<^verbatim>\<open>wallet_manager\<close> is embedded as a function that
  takes the manager (and, where the code touches it, the file system) and returns the
  outcome together with the manager it leaves behind: a C++ exception is the \<open>Inl\<close> branch
  of the outcome, and the state returned with it is the state at the throw, because what
  \<^verbatim>\<open>check_timeout\<close> did before the throw stays done.

  The clock is an input: \<open>now\<close> is what \<^verbatim>\<open>std::chrono::system_clock::now()\<close> returns in
  the call's \<^verbatim>\<open>check_timeout\<close>. The freshly generated private key of \<^verbatim>\<open>gen_password\<close> is an
  input as well.
\<close>

subsection \<open>Opaque values and exceptions\<close>

text \<open>Keys, digests and signatures are byte strings the manager never looks into.\<close>

type_synonym public_key_type = string
type_synonym private_key_type = string
type_synonym signature_type = string
type_synonym digest_type = string
type_synonym chain_id_type = string

text \<open>
  A time point is the tick count of the system clock, a signed 64-bit integer; a duration
  is counted in the same ticks (the unit conversion of \<^verbatim>\<open>std::chrono\<close> is not modelled).
\<close>

type_synonym timepoint_t = int

text \<open>
  The exceptions, under their C++ names. The specification calls
  \<open>wallet_exception\<close> on a bad name InvalidName, \<open>wallet_exist_exception\<close>
  WalletAlreadyExists, \<open>wallet_nonexistent_exception\<close> WalletNonexistent,
  \<open>wallet_locked_exception\<close> WalletLocked (and AllWalletsLocked when the aggregating
  operations throw it), \<open>wallet_unlocked_exception\<close> WalletAlreadyUnlocked,
  \<open>wallet_missing_pub_key_exception\<close> MissingPublicKey,
  \<open>wallet_not_available_exception\<close> NoWalletsAvailable,
  \<open>wallet_invalid_password_exception\<close> BadPassword,
  \<open>invalid_lock_timeout_exception\<close> TimeoutOverflow and the \<^verbatim>\<open>FC_THROW\<close> of
  \<^verbatim>\<open>own_and_use_wallet\<close> DuplicateWalletRegistration. \<open>std_out_of_range\<close> is what
  \<^verbatim>\<open>wallets.at\<close> throws on a missing name; \<open>capability_exception\<close> stands for any other
  exception of a wallet backend.
\<close>

datatype error =
    wallet_exception
  | wallet_exist_exception
  | wallet_nonexistent_exception
  | wallet_locked_exception
  | wallet_unlocked_exception
  | wallet_missing_pub_key_exception public_key_type
  | wallet_not_available_exception
  | wallet_invalid_password_exception
  | invalid_lock_timeout_exception
  | fc_exception
  | std_out_of_range
  | capability_exception string

record signed_transaction =
  trx :: string
  signatures :: "signature_type list"

subsection \<open>The wallet capability and the other collaborators, as parameters\<close>

text \<open>
  \<^verbatim>\<open>wallet_api\<close>, \<^verbatim>\<open>soft_wallet\<close>, the file system and the cryptography live outside
  \<^verbatim>\<open>wallet_manager.cpp\<close>. The manager is embedded over any implementation of them: \<open>'w\<close>
  is the state of one wallet object, \<open>'fs\<close> the state of the file system, and the
  record below holds the virtual functions the manager calls. Their signatures follow the
  capability interface of the specification (section 4.1): \<^verbatim>\<open>is_locked\<close>, the listings
  and \<^verbatim>\<open>try_sign_digest\<close> observe, \<^verbatim>\<open>lock\<close>, \<^verbatim>\<open>set_password\<close> and
  \<^verbatim>\<open>set_wallet_filename\<close> always succeed, and a function that can throw returns a sum; an
  exception leaves the wallet object as it was. Failures of writing the wallet file are not
  modelled.

  \<^item> \<open>soft_wallet\<close> is \<^verbatim>\<open>make_unique<soft_wallet>(wallet_data())\<close>, the empty wallet;
  \<^item> \<open>w_load_wallet_file\<close> returns \<open>None\<close> where the C++ returns \<^verbatim>\<open>false\<close>;
  \<^item> \<open>fc_exists\<close> is \<^verbatim>\<open>fc::exists\<close>, \<open>sig_digest\<close> is
    \<^verbatim>\<open>signed_transaction::sig_digest\<close> and \<open>sign\<close> is \<^verbatim>\<open>private_key_type::sign\<close>.
\<close>

record ('w, 'fs) wallet_api =
  soft_wallet :: "'w"
  w_set_password :: "'w \<Rightarrow> string \<Rightarrow> 'w"
  w_set_wallet_filename :: "'w \<Rightarrow> string \<Rightarrow> 'w"
  w_check_password :: "'w \<Rightarrow> string \<Rightarrow> error + unit"
  w_is_locked :: "'w \<Rightarrow> bool"
  w_lock :: "'w \<Rightarrow> 'w"
  w_unlock :: "'w \<Rightarrow> string \<Rightarrow> error + 'w"
  w_list_keys :: "'w \<Rightarrow> (public_key_type \<times> private_key_type) list"
  w_list_public_keys :: "'w \<Rightarrow> public_key_type set"
  w_import_key :: "'w \<Rightarrow> string \<Rightarrow> error + 'w"
  w_remove_key :: "'w \<Rightarrow> string \<Rightarrow> error + 'w"
  w_create_key :: "'w \<Rightarrow> string \<Rightarrow> error + string \<times> 'w"
  w_try_sign_digest :: "'w \<Rightarrow> digest_type \<Rightarrow> public_key_type \<Rightarrow> signature_type option"
  w_load_wallet_file :: "'w \<Rightarrow> 'fs \<Rightarrow> 'w option"
  w_save_wallet_file :: "'w \<Rightarrow> 'fs \<Rightarrow> 'fs"
  fc_exists :: "'fs \<Rightarrow> string \<Rightarrow> bool"
  sig_digest :: "signed_transaction \<Rightarrow> chain_id_type \<Rightarrow> digest_type"
  sign :: "private_key_type \<Rightarrow> chain_id_type \<Rightarrow> signature_type"

subsection \<open>The manager's state\<close>

text \<open>
  Modelled from the spec: the member \<^verbatim>\<open>wallets\<close> is declared in \<^verbatim>\<open>wallet_manager.hpp\<close>,
  which is not among the sources. The code uses it as an associative container with
  unique keys (\<^verbatim>\<open>find\<close>, \<^verbatim>\<open>count\<close>, \<^verbatim>\<open>at\<close>, \<^verbatim>\<open>erase\<close>, \<^verbatim>\<open>emplace\<close>, iteration); the
  specification says its iteration order is the order of registration. The registry is
  therefore a list of (name, wallet) pairs in iteration order, and \<open>emplace\<close> adds a
  new name at the end.
\<close>

type_synonym 'w registry = "(string \<times> 'w) list"

record 'w wallet_manager =
  wallets :: "'w registry"
  timeout :: int
  timeout_time :: timepoint_t
  dir :: string

definition erase :: "string \<Rightarrow> 'w registry \<Rightarrow> 'w registry" where
  "erase name ws = filter (\<lambda>i. fst i \<noteq> name) ws"

definition emplace :: "string \<Rightarrow> 'w \<Rightarrow> 'w registry \<Rightarrow> 'w registry" where
  "emplace name w ws = (if map_of ws name = None then ws @ [(name, w)] else ws)"

text \<open>
  \<open>assign name w'\<close> is the effect on the registry of a mutating call through the
  reference \<^verbatim>\<open>wallets.at(name)\<close> that leaves the wallet object in state \<open>w'\<close>.
\<close>

definition assign :: "string \<Rightarrow> 'w \<Rightarrow> 'w registry \<Rightarrow> 'w registry" where
  "assign name w' ws = map (\<lambda>i. if fst i = name then (fst i, w') else i) ws"

subsection \<open>Constants and helpers of the file\<close>

definition file_ext :: string where
  "file_ext = ''.wallet''"

definition password_prefix :: string where
  "password_prefix = ''PW''"

text \<open>\<open>key\<close> is \<^verbatim>\<open>string(private_key_type::generate())\<close>.\<close>

definition gen_password :: "private_key_type \<Rightarrow> string" where
  "gen_password key = password_prefix @ key"

text \<open>
  \<^verbatim>\<open>boost::algorithm::is_alnum\<close> in the classic locale and \<^verbatim>\<open>is_any_of\<close>.
\<close>

definition is_alnum :: "char \<Rightarrow> bool" where
  "is_alnum c =
     (let n = (of_char c :: nat)
      in (48 \<le> n \<and> n \<le> 57) \<or> (65 \<le> n \<and> n \<le> 90) \<or> (97 \<le> n \<and> n \<le> 122))"

definition is_any_of :: "string \<Rightarrow> char \<Rightarrow> bool" where
  "is_any_of cs c = (c \<in> set cs)"

text \<open>
  \<^verbatim>\<open>boost::filesystem::path(name).filename().string()\<close> with the POSIX separator: the
  text after the last \<^verbatim>\<open>/\<close>; a path that ends in a separator has the file name \<^verbatim>\<open>.\<close>,
  and a path of separators only is the root \<^verbatim>\<open>/\<close>.
\<close>

definition path_filename :: "string \<Rightarrow> string" where
  "path_filename p =
     (let tail = rev (takeWhile (\<lambda>c. c \<noteq> CHR ''/'') (rev p))
      in if tail = [] \<and> p \<noteq> []
         then (if list_all (\<lambda>c. c = CHR ''/'') p then ''/'' else ''.'')
         else tail)"

definition valid_filename :: "string \<Rightarrow> bool" where
  "valid_filename name =
     (if name = [] then False
      else if find (\<lambda>c. \<not> is_alnum c \<and> \<not> is_any_of ''._-'' c) name \<noteq> None then False
      else path_filename name = name)"

text \<open>\<^verbatim>\<open>dir / (name + file_ext)\<close>: \<^verbatim>\<open>operator/\<close> of \<^verbatim>\<open>boost::filesystem::path\<close>.\<close>

definition path_append :: "string \<Rightarrow> string \<Rightarrow> string" where
  "path_append d p =
     (if d = [] \<or> p = [] \<or> last d = CHR ''/'' \<or> hd p = CHR ''/'' then d @ p
      else d @ ''/'' @ p)"

text \<open>\<^verbatim>\<open>boost::to_upper_copy\<close> in the classic locale.\<close>

definition to_upper :: "char \<Rightarrow> char" where
  "to_upper c =
     (let n = (of_char c :: nat) in if 97 \<le> n \<and> n \<le> 122 then char_of (n - 32) else c)"

definition to_upper_copy :: "string \<Rightarrow> string" where
  "to_upper_copy s = map to_upper s"

subsection \<open>Time\<close>

definition timepoint_max :: timepoint_t where
  "timepoint_max = 2 ^ 63 - 1"

text \<open>\<^verbatim>\<open>now + timeout\<close> on 64-bit tick counts, wrapping around.\<close>

definition wrap64 :: "int \<Rightarrow> int" where
  "wrap64 x = (x + 2 ^ 63) mod 2 ^ 64 - 2 ^ 63"

definition tp_plus :: "timepoint_t \<Rightarrow> int \<Rightarrow> timepoint_t" where
  "tp_plus now d = wrap64 (now + d)"

definition set_timeout ::
  "timepoint_t \<Rightarrow> int \<Rightarrow> 'w wallet_manager \<Rightarrow> (error + unit) \<times> 'w wallet_manager" where
  "set_timeout now t m =
     (let m1 = m\<lparr>timeout := t\<rparr>;
          m2 = m1\<lparr>timeout_time := tp_plus now (timeout m1)\<rparr>
      in if timeout_time m2 \<ge> now \<and> timeout_time m2 > 0 then (Inr (), m2)
         else (Inl invalid_lock_timeout_exception, m2))"

definition lock_all :: "('w, 'fs) wallet_api \<Rightarrow> 'w wallet_manager \<Rightarrow> 'w wallet_manager" where
  "lock_all api m =
     m\<lparr>wallets := map (\<lambda>i. if \<not> w_is_locked api (snd i) then (fst i, w_lock api (snd i)) else i)
                      (wallets m)\<rparr>"

definition check_timeout ::
  "('w, 'fs) wallet_api \<Rightarrow> timepoint_t \<Rightarrow> 'w wallet_manager \<Rightarrow> 'w wallet_manager" where
  "check_timeout api now m =
     (if timeout_time m \<noteq> timepoint_max
      then (let m1 = (if now \<ge> timeout_time m then lock_all api m else m)
            in m1\<lparr>timeout_time := tp_plus now (timeout m1)\<rparr>)
      else m)"

subsection \<open>Creating and opening\<close>

definition create ::
  "('w, 'fs) wallet_api \<Rightarrow> timepoint_t \<Rightarrow> private_key_type \<Rightarrow> string \<Rightarrow> 'fs \<Rightarrow>
     'w wallet_manager \<Rightarrow> (error + string) \<times> 'w wallet_manager \<times> 'fs" where
  "create api now key name fs m =
     (let m1 = check_timeout api now m
      in if \<not> valid_filename name then (Inl wallet_exception, m1, fs)
         else
           let wallet_filename = path_append (dir m1) (name @ file_ext)
           in if fc_exists api fs wallet_filename then (Inl wallet_exist_exception, m1, fs)
              else
                let password = gen_password key;
                    wallet = w_set_wallet_filename api
                               (w_set_password api (soft_wallet api) password) wallet_filename
                in case w_unlock api wallet password of
                     Inl e \<Rightarrow> (Inl e, m1, fs)
                   | Inr wallet1 \<Rightarrow>
                       (case w_unlock api (w_lock api wallet1) password of
                          Inl e \<Rightarrow> (Inl e, m1, fs)
                        | Inr wallet2 \<Rightarrow>
                            (let fs1 = w_save_wallet_file api wallet2 fs;
                                 ws = (if map_of (wallets m1) name \<noteq> None
                                       then erase name (wallets m1) else wallets m1)
                             in (Inr password, m1\<lparr>wallets := emplace name wallet2 ws\<rparr>, fs1))))"

definition "open" ::
  "('w, 'fs) wallet_api \<Rightarrow> timepoint_t \<Rightarrow> string \<Rightarrow> 'fs \<Rightarrow> 'w wallet_manager \<Rightarrow>
     (error + unit) \<times> 'w wallet_manager" where
  "open api now name fs m =
     (let m1 = check_timeout api now m
      in if \<not> valid_filename name then (Inl wallet_exception, m1)
         else
           let wallet_filename = path_append (dir m1) (name @ file_ext);
               wallet = w_set_wallet_filename api (soft_wallet api) wallet_filename
           in case w_load_wallet_file api wallet fs of
                None \<Rightarrow> (Inl wallet_nonexistent_exception, m1)
              | Some wallet1 \<Rightarrow>
                  (let ws = (if map_of (wallets m1) name \<noteq> None
                             then erase name (wallets m1) else wallets m1)
                   in (Inr (), m1\<lparr>wallets := emplace name wallet1 ws\<rparr>)))"

subsection \<open>Listing\<close>

definition list_wallets ::
  "('w, 'fs) wallet_api \<Rightarrow> timepoint_t \<Rightarrow> 'w wallet_manager \<Rightarrow>
     (error + string list) \<times> 'w wallet_manager" where
  "list_wallets api now m =
     (let m1 = check_timeout api now m
      in (Inr (map (\<lambda>i. if w_is_locked api (snd i) then fst i else fst i @ '' *'') (wallets m1)),
          m1))"

definition list_keys ::
  "('w, 'fs) wallet_api \<Rightarrow> timepoint_t \<Rightarrow> string \<Rightarrow> string \<Rightarrow> 'w wallet_manager \<Rightarrow>
     (error + (public_key_type \<times> private_key_type) list) \<times> 'w wallet_manager" where
  "list_keys api now name pw m =
     (let m1 = check_timeout api now m
      in case map_of (wallets m1) name of
           None \<Rightarrow> (Inl wallet_nonexistent_exception, m1)
         | Some w \<Rightarrow>
             if w_is_locked api w then (Inl wallet_locked_exception, m1)
             else (case w_check_password api w pw of
                     Inl e \<Rightarrow> (Inl e, m1)
                   | Inr _ \<Rightarrow> (Inr (w_list_keys api w), m1)))"

text \<open>
  The loop of \<^verbatim>\<open>get_public_keys\<close>, over the registry in iteration order: the accumulator
  is \<^verbatim>\<open>result\<close> and \<^verbatim>\<open>is_all_wallet_locked\<close>.
\<close>

fun get_public_keys_loop ::
  "('w, 'fs) wallet_api \<Rightarrow> 'w registry \<Rightarrow> public_key_type set \<times> bool \<Rightarrow>
     public_key_type set \<times> bool" where
  "get_public_keys_loop api [] acc = acc"
| "get_public_keys_loop api (i # ws) (result, is_all_wallet_locked) =
     get_public_keys_loop api ws
       (if \<not> w_is_locked api (snd i) then result \<union> w_list_public_keys api (snd i) else result,
        is_all_wallet_locked \<and> w_is_locked api (snd i))"

definition get_public_keys ::
  "('w, 'fs) wallet_api \<Rightarrow> timepoint_t \<Rightarrow> 'w wallet_manager \<Rightarrow>
     (error + public_key_type set) \<times> 'w wallet_manager" where
  "get_public_keys api now m =
     (let m1 = check_timeout api now m
      in if wallets m1 = [] then (Inl wallet_not_available_exception, m1)
         else
           (case get_public_keys_loop api (wallets m1) ({}, True) of
              (result, is_all_wallet_locked) \<Rightarrow>
                if is_all_wallet_locked then (Inl wallet_locked_exception, m1)
                else (Inr result, m1)))"

fun get_my_signatures_loop ::
  "('w, 'fs) wallet_api \<Rightarrow> chain_id_type \<Rightarrow> 'w registry \<Rightarrow> signature_type set \<times> bool \<Rightarrow>
     signature_type set \<times> bool" where
  "get_my_signatures_loop api chain_id [] acc = acc"
| "get_my_signatures_loop api chain_id (i # ws) (result, is_all_wallet_locked) =
     get_my_signatures_loop api chain_id ws
       (if \<not> w_is_locked api (snd i)
        then result \<union> set (map (\<lambda>k. sign api (snd k) chain_id) (w_list_keys api (snd i)))
        else result,
        is_all_wallet_locked \<and> w_is_locked api (snd i))"

definition get_my_signatures ::
  "('w, 'fs) wallet_api \<Rightarrow> timepoint_t \<Rightarrow> chain_id_type \<Rightarrow> 'w wallet_manager \<Rightarrow>
     (error + signature_type set) \<times> 'w wallet_manager" where
  "get_my_signatures api now chain_id m =
     (let m1 = check_timeout api now m
      in if wallets m1 = [] then (Inl wallet_not_available_exception, m1)
         else
           (case get_my_signatures_loop api chain_id (wallets m1) ({}, True) of
              (result, is_all_wallet_locked) \<Rightarrow>
                if is_all_wallet_locked then (Inl wallet_locked_exception, m1)
                else (Inr result, m1)))"

subsection \<open>Locking and unlocking\<close>

definition lock ::
  "('w, 'fs) wallet_api \<Rightarrow> timepoint_t \<Rightarrow> string \<Rightarrow> 'w wallet_manager \<Rightarrow>
     (error + unit) \<times> 'w wallet_manager" where
  "lock api now name m =
     (let m1 = check_timeout api now m
      in case map_of (wallets m1) name of
           None \<Rightarrow> (Inl wallet_nonexistent_exception, m1)
         | Some w \<Rightarrow>
             if w_is_locked api w then (Inr (), m1)
             else (Inr (), m1\<lparr>wallets := assign name (w_lock api w) (wallets m1)\<rparr>))"

text \<open>
  \<^verbatim>\<open>unlock\<close> reads the clock in its own \<^verbatim>\<open>check_timeout\<close> (\<open>now\<close>) and, when the name is
  not registered, a second time in the \<^verbatim>\<open>check_timeout\<close> of the \<^verbatim>\<open>open\<close> it calls
  (\<open>now'\<close>).
\<close>

definition unlock ::
  "('w, 'fs) wallet_api \<Rightarrow> timepoint_t \<Rightarrow> timepoint_t \<Rightarrow> string \<Rightarrow> string \<Rightarrow> 'fs \<Rightarrow>
     'w wallet_manager \<Rightarrow> (error + unit) \<times> 'w wallet_manager" where
  "unlock api now now' name password fs m =
     (let m1 = check_timeout api now m;
          opened = (if map_of (wallets m1) name = None then open api now' name fs m1
                    else (Inr (), m1))
      in case opened of
           (Inl e, m2) \<Rightarrow> (Inl e, m2)
         | (Inr _, m2) \<Rightarrow>
             (case map_of (wallets m2) name of
                None \<Rightarrow> (Inl std_out_of_range, m2)
              | Some w \<Rightarrow>
                  if \<not> w_is_locked api w then (Inl wallet_unlocked_exception, m2)
                  else (case w_unlock api w password of
                          Inl e \<Rightarrow> (Inl e, m2)
                        | Inr w1 \<Rightarrow> (Inr (), m2\<lparr>wallets := assign name w1 (wallets m2)\<rparr>))))"

subsection \<open>Keys\<close>

definition import_key ::
  "('w, 'fs) wallet_api \<Rightarrow> timepoint_t \<Rightarrow> string \<Rightarrow> string \<Rightarrow> 'w wallet_manager \<Rightarrow>
     (error + unit) \<times> 'w wallet_manager" where
  "import_key api now name wif_key m =
     (let m1 = check_timeout api now m
      in case map_of (wallets m1) name of
           None \<Rightarrow> (Inl wallet_nonexistent_exception, m1)
         | Some w \<Rightarrow>
             if w_is_locked api w then (Inl wallet_locked_exception, m1)
             else (case w_import_key api w wif_key of
                     Inl e \<Rightarrow> (Inl e, m1)
                   | Inr w1 \<Rightarrow> (Inr (), m1\<lparr>wallets := assign name w1 (wallets m1)\<rparr>)))"

definition remove_key ::
  "('w, 'fs) wallet_api \<Rightarrow> timepoint_t \<Rightarrow> string \<Rightarrow> string \<Rightarrow> string \<Rightarrow> 'w wallet_manager \<Rightarrow>
     (error + unit) \<times> 'w wallet_manager" where
  "remove_key api now name password key m =
     (let m1 = check_timeout api now m
      in case map_of (wallets m1) name of
           None \<Rightarrow> (Inl wallet_nonexistent_exception, m1)
         | Some w \<Rightarrow>
             if w_is_locked api w then (Inl wallet_locked_exception, m1)
             else (case w_check_password api w password of
                     Inl e \<Rightarrow> (Inl e, m1)
                   | Inr _ \<Rightarrow>
                       (case w_remove_key api w key of
                          Inl e \<Rightarrow> (Inl e, m1)
                        | Inr w1 \<Rightarrow> (Inr (), m1\<lparr>wallets := assign name w1 (wallets m1)\<rparr>))))"

definition create_key ::
  "('w, 'fs) wallet_api \<Rightarrow> timepoint_t \<Rightarrow> string \<Rightarrow> string \<Rightarrow> 'w wallet_manager \<Rightarrow>
     (error + string) \<times> 'w wallet_manager" where
  "create_key api now name key_type m =
     (let m1 = check_timeout api now m
      in case map_of (wallets m1) name of
           None \<Rightarrow> (Inl wallet_nonexistent_exception, m1)
         | Some w \<Rightarrow>
             if w_is_locked api w then (Inl wallet_locked_exception, m1)
             else
               let upper_key_type = to_upper_copy key_type
               in (case w_create_key api w upper_key_type of
                     Inl e \<Rightarrow> (Inl e, m1)
                   | Inr (pub, w1) \<Rightarrow> (Inr pub, m1\<lparr>wallets := assign name w1 (wallets m1)\<rparr>)))"

subsection \<open>Signing\<close>

text \<open>
  The scan over the registry that \<^verbatim>\<open>sign_transaction\<close> runs for one key (leaving it by
  \<^verbatim>\<open>break\<close>) and \<^verbatim>\<open>sign_digest\<close> for its key (leaving it by \<^verbatim>\<open>return\<close>): \<open>None\<close> when
  the loop runs to its end.
\<close>

fun sign_scan ::
  "('w, 'fs) wallet_api \<Rightarrow> 'w registry \<Rightarrow> digest_type \<Rightarrow> public_key_type \<Rightarrow>
     signature_type option" where
  "sign_scan api [] digest pk = None"
| "sign_scan api (i # ws) digest pk =
     (if \<not> w_is_locked api (snd i)
      then (case w_try_sign_digest api (snd i) digest pk of
              Some sig \<Rightarrow> Some sig
            | None \<Rightarrow> sign_scan api ws digest pk)
      else sign_scan api ws digest pk)"

text \<open>The loop over the requested keys, in the iteration order of the \<^verbatim>\<open>flat_set\<close>.\<close>

fun sign_keys ::
  "('w, 'fs) wallet_api \<Rightarrow> chain_id_type \<Rightarrow> 'w registry \<Rightarrow> signed_transaction \<Rightarrow>
     public_key_type list \<Rightarrow> error + signed_transaction" where
  "sign_keys api chain_id ws stxn [] = Inr stxn"
| "sign_keys api chain_id ws stxn (pk # pks) =
     (case sign_scan api ws (sig_digest api stxn chain_id) pk of
        Some sig \<Rightarrow> sign_keys api chain_id ws (stxn\<lparr>signatures := signatures stxn @ [sig]\<rparr>) pks
      | None \<Rightarrow> Inl (wallet_missing_pub_key_exception pk))"

definition sign_transaction ::
  "('w, 'fs) wallet_api \<Rightarrow> timepoint_t \<Rightarrow> signed_transaction \<Rightarrow> public_key_type list \<Rightarrow>
     chain_id_type \<Rightarrow> 'w wallet_manager \<Rightarrow> (error + signed_transaction) \<times> 'w wallet_manager" where
  "sign_transaction api now txn keys chain_id m =
     (let m1 = check_timeout api now m
      in (sign_keys api chain_id (wallets m1) txn keys, m1))"

definition sign_digest ::
  "('w, 'fs) wallet_api \<Rightarrow> timepoint_t \<Rightarrow> digest_type \<Rightarrow> public_key_type \<Rightarrow>
     'w wallet_manager \<Rightarrow> (error + signature_type) \<times> 'w wallet_manager" where
  "sign_digest api now digest key m =
     (let m1 = check_timeout api now m
      in case sign_scan api (wallets m1) digest key of
           Some sig \<Rightarrow> (Inr sig, m1)
         | None \<Rightarrow> (Inl (wallet_missing_pub_key_exception key), m1))"

definition own_and_use_wallet ::
  "string \<Rightarrow> 'w \<Rightarrow> 'w wallet_manager \<Rightarrow> (error + unit) \<times> 'w wallet_manager" where
  "own_and_use_wallet name wallet m =
     (if map_of (wallets m) name \<noteq> None then (Inl fc_exception, m)
      else (Inr (), m\<lparr>wallets := emplace name wallet (wallets m)\<rparr>))"

subsection \<open>A software wallet\<close>

text \<open>
  Modelled from the spec: \<^verbatim>\<open>soft_wallet\<close> (\<^verbatim>\<open>wallet.cpp\<close>) and \<^verbatim>\<open>wallet_data\<close> are not
  among the sources. This backend follows the capability contract of the specification
  (section 4.1): \<^verbatim>\<open>set_password\<close> binds a passphrase and \<^verbatim>\<open>check_password\<close> verifies it;
  \<^verbatim>\<open>unlock\<close> leads to Unlocked iff the password verifies and otherwise fails BadPassword
  with the state unchanged; \<^verbatim>\<open>lock\<close> leads to Locked unconditionally;
  \<^verbatim>\<open>try_sign_digest\<close> signs with exactly the named key if it is present and the wallet
  unlocked, and returns no match otherwise; \<^verbatim>\<open>load_wallet_file\<close> fails when the file is
  missing. The file holds the passphrase binding and the keys, and a wallet loaded from it
  is Locked. The theorems below hold for every backend; this one instantiates them.
\<close>

record wallet_data =
  data_password :: string
  data_keys :: "(public_key_type \<times> private_key_type) list"

record soft_wallet_state =
  sw_filename :: string
  sw_password :: string
  sw_locked :: bool
  sw_keys :: "(public_key_type \<times> private_key_type) list"

type_synonym files = "string \<Rightarrow> wallet_data option"

definition sw_sign :: "private_key_type \<Rightarrow> digest_type \<Rightarrow> signature_type" where
  "sw_sign sk d = ''SIG('' @ sk @ '','' @ d @ '')''"

definition sw_public :: "private_key_type \<Rightarrow> public_key_type" where
  "sw_public sk = ''PUB('' @ sk @ '')''"

definition sw_unlock :: "soft_wallet_state \<Rightarrow> string \<Rightarrow> error + soft_wallet_state" where
  "sw_unlock w password =
     (if password = sw_password w then Inr (w\<lparr>sw_locked := False\<rparr>)
      else Inl wallet_invalid_password_exception)"

definition sw_try_sign_digest ::
  "soft_wallet_state \<Rightarrow> digest_type \<Rightarrow> public_key_type \<Rightarrow> signature_type option" where
  "sw_try_sign_digest w d pk =
     (if sw_locked w then None
      else (case map_of (sw_keys w) pk of None \<Rightarrow> None | Some sk \<Rightarrow> Some (sw_sign sk d)))"

definition sw_load_wallet_file :: "soft_wallet_state \<Rightarrow> files \<Rightarrow> soft_wallet_state option" where
  "sw_load_wallet_file w fs =
     (case fs (sw_filename w) of
        None \<Rightarrow> None
      | Some d \<Rightarrow>
          Some (w\<lparr>sw_password := data_password d, sw_keys := data_keys d, sw_locked := True\<rparr>))"

definition sw_save_wallet_file :: "soft_wallet_state \<Rightarrow> files \<Rightarrow> files" where
  "sw_save_wallet_file w fs =
     fs(sw_filename w \<mapsto> \<lparr>data_password = sw_password w, data_keys = sw_keys w\<rparr>)"

definition soft_api :: "(soft_wallet_state, files) wallet_api" where
  "soft_api =
     \<lparr>soft_wallet = \<lparr>sw_filename = [], sw_password = [], sw_locked = True, sw_keys = []\<rparr>,
      w_set_password = (\<lambda>w password. w\<lparr>sw_password := password\<rparr>),
      w_set_wallet_filename = (\<lambda>w f. w\<lparr>sw_filename := f\<rparr>),
      w_check_password = (\<lambda>w password.
        if password = sw_password w then Inr () else Inl wallet_invalid_password_exception),
      w_is_locked = sw_locked,
      w_lock = (\<lambda>w. w\<lparr>sw_locked := True\<rparr>),
      w_unlock = sw_unlock,
      w_list_keys = sw_keys,
      w_list_public_keys = (\<lambda>w. set (map fst (sw_keys w))),
      w_import_key = (\<lambda>w wif. Inr (w\<lparr>sw_keys := sw_keys w @ [(sw_public wif, wif)]\<rparr>)),
      w_remove_key = (\<lambda>w key.
        if map_of (sw_keys w) key = None then Inl (capability_exception ''key not found'')
        else Inr (w\<lparr>sw_keys := filter (\<lambda>k. fst k \<noteq> key) (sw_keys w)\<rparr>)),
      w_create_key = (\<lambda>w key_type.
        let sk = key_type @ '':'' @ concat (map snd (sw_keys w))
        in Inr (sw_public sk, w\<lparr>sw_keys := sw_keys w @ [(sw_public sk, sk)]\<rparr>)),
      w_try_sign_digest = sw_try_sign_digest,
      w_load_wallet_file = sw_load_wallet_file,
      w_save_wallet_file = sw_save_wallet_file,
      fc_exists = (\<lambda>fs p. fs p \<noteq> None),
      sig_digest = (\<lambda>stxn chain_id. ''H('' @ chain_id @ '','' @ trx stxn @ '')''),
      sign = sw_sign\<rparr>"

subsection \<open>Notions used by the properties\<close>

text \<open>
  A wallet declines a signing request when the scan passes over it: it is locked, or its
  \<^verbatim>\<open>try_sign_digest\<close> finds no match for the key.
\<close>

definition declines ::
  "('w, 'fs) wallet_api \<Rightarrow> digest_type \<Rightarrow> public_key_type \<Rightarrow> 'w \<Rightarrow> bool" where
  "declines api digest pk w = (w_is_locked api w \<or> w_try_sign_digest api w digest pk = None)"

text \<open>
  What the \<^verbatim>\<open>load_wallet_file\<close> of \<^verbatim>\<open>open(name)\<close> yields: an empty software wallet is
  pointed at \<^verbatim>\<open>dir / (name + file_ext)\<close> and loaded from there.
\<close>

definition loaded_wallet ::
  "('w, 'fs) wallet_api \<Rightarrow> string \<Rightarrow> 'fs \<Rightarrow> 'w wallet_manager \<Rightarrow> 'w option" where
  "loaded_wallet api name fs m =
     w_load_wallet_file api
       (w_set_wallet_filename api (soft_wallet api) (path_append (dir m) (name @ file_ext))) fs"







subsection \<open>Example states\<close>

text \<open>
  A manager over software wallets with three registered wallets that all hold the public
  key \<open>K\<close>, the first one locked; the timeout is five ticks and the expiry is at tick 10.
\<close>

definition ex_vault :: soft_wallet_state where
  "ex_vault = \<lparr>sw_filename = ''d/vault.wallet'', sw_password = ''PWv'', sw_locked = True,
                sw_keys = [(''K'', ''skv'')]\<rparr>"

definition ex_a :: soft_wallet_state where
  "ex_a = \<lparr>sw_filename = ''d/a.wallet'', sw_password = ''PWa'', sw_locked = False,
            sw_keys = [(''K'', ''ska'')]\<rparr>"

definition ex_b :: soft_wallet_state where
  "ex_b = \<lparr>sw_filename = ''d/b.wallet'', sw_password = ''PWb'', sw_locked = False,
            sw_keys = [(''K'', ''skb'')]\<rparr>"

definition ex_manager :: "soft_wallet_state wallet_manager" where
  "ex_manager = \<lparr>wallets = [(''vault'', ex_vault), (''a'', ex_a), (''b'', ex_b)],
                  timeout = 5, timeout_time = 10, dir = ''d''\<rparr>"

definition ex_txn :: signed_transaction where
  "ex_txn = \<lparr>trx = ''transfer'', signatures = []\<rparr>"

text \<open>
  A manager with the timeout disabled whose only unlocked wallet holds no key, and a manager
  with no wallet.
\<close>

definition ex_keyless :: soft_wallet_state where
  "ex_keyless = \<lparr>sw_filename = ''d/keyless.wallet'', sw_password = ''PWk'', sw_locked = False,
                  sw_keys = []\<rparr>"

definition ex_keyless_manager :: "soft_wallet_state wallet_manager" where
  "ex_keyless_manager = \<lparr>wallets = [(''vault'', ex_vault), (''keyless'', ex_keyless)],
                          timeout = 5, timeout_time = timepoint_max, dir = ''d''\<rparr>"

definition ex_empty_manager :: "soft_wallet_state wallet_manager" where
  "ex_empty_manager = \<lparr>wallets = [], timeout = 5, timeout_time = 10, dir = ''d''\<rparr>"

text \<open>
  A file system that holds one wallet file, \<^verbatim>\<open>d/bob.wallet\<close>, and the wallet that is loaded
  from it.
\<close>

definition ex_files :: files where
  "ex_files = [''d/bob.wallet'' \<mapsto> \<lparr>data_password = ''PWbob'', data_keys = [(''B'', ''skbob'')]\<rparr>]"

definition ex_bob :: soft_wallet_state where
  "ex_bob = \<lparr>sw_filename = ''d/bob.wallet'', sw_password = ''PWbob'', sw_locked = True,
              sw_keys = [(''B'', ''skbob'')]\<rparr>"

text \<open>
  The example manager after \<^verbatim>\<open>create("alice")\<close> at tick 7, and after
  \<^verbatim>\<open>set_timeout\<close> of five ticks at tick 20.
\<close>

definition ex_created :: "soft_wallet_state wallet_manager" where
  "ex_created = fst (snd (create soft_api 7 ''key'' ''alice'' ex_files ex_manager))"





section \<open>Properties\<close>

subsection \<open>What \<^verbatim>\<open>lock_all\<close> and \<^verbatim>\<open>check_timeout\<close> do to the state\<close>

lemma wallets_lock_all:
  "wallets (lock_all api m) =
     map (\<lambda>i. if \<not> w_is_locked api (snd i) then (fst i, w_lock api (snd i)) else i) (wallets m)"
  by (simp add: lock_all_def)

lemma lock_all_other_fields:
  "timeout (lock_all api m) = timeout m"
  "timeout_time (lock_all api m) = timeout_time m"
  "dir (lock_all api m) = dir m"
  by (simp_all add: lock_all_def)

lemma map_of_locked_registry:
  "map_of (map (\<lambda>i. if \<not> w_is_locked api (snd i) then (fst i, w_lock api (snd i)) else i) ws) name =
     map_option (\<lambda>w. if \<not> w_is_locked api w then w_lock api w else w) (map_of ws name)"
  by (induction ws) auto

lemma map_of_lock_all:
  "map_of (wallets (lock_all api m)) name =
     map_option (\<lambda>w. if \<not> w_is_locked api w then w_lock api w else w) (map_of (wallets m) name)"
  by (simp add: wallets_lock_all map_of_locked_registry)

lemma check_timeout_other_fields:
  "timeout (check_timeout api now m) = timeout m"
  "dir (check_timeout api now m) = dir m"
  by (simp_all add: check_timeout_def lock_all_def Let_def)

lemma wallets_check_timeout:
  "wallets (check_timeout api now m) =
     (if timeout_time m \<noteq> timepoint_max \<and> timeout_time m \<le> now
      then wallets (lock_all api m) else wallets m)"
  by (simp add: check_timeout_def Let_def)

lemma registered_check_timeout:
  "(map_of (wallets (check_timeout api now m)) name = None) = (map_of (wallets m) name = None)"
  by (simp add: wallets_check_timeout map_of_lock_all)

lemma empty_check_timeout:
  "(wallets (check_timeout api now m) = []) = (wallets m = [])"
  by (simp add: wallets_check_timeout wallets_lock_all)

lemma map_of_check_timeout_locked:
  "map_of (wallets m) name = Some w \<Longrightarrow> w_is_locked api w \<Longrightarrow>
   map_of (wallets (check_timeout api now m)) name = Some w"
  by (simp add: wallets_check_timeout map_of_lock_all)

lemma map_of_check_timeout_unlocked:
  "map_of (wallets m) name = Some w \<Longrightarrow> \<not> w_is_locked api w \<Longrightarrow>
   map_of (wallets (check_timeout api now m)) name = Some w \<or>
   map_of (wallets (check_timeout api now m)) name = Some (w_lock api w)"
  by (simp add: wallets_check_timeout map_of_lock_all)



lemma check_timeout_twice_timeout:
  "timeout (check_timeout api t (check_timeout api t m)) = timeout m"
  by (simp add: check_timeout_other_fields)

subsection \<open>The registry\<close>

lemma map_of_assign:
  "map_of (assign name w' ws) n =
     (if n = name then map_option (\<lambda>_. w') (map_of ws n) else map_of ws n)"
  by (induction ws) (auto simp: assign_def)

lemma map_of_erase: "map_of (erase name ws) name = None"
  by (induction ws) (auto simp: erase_def)

lemma erase_unregistered: "map_of ws name = None \<Longrightarrow> erase name ws = ws"
  by (induction ws) (auto simp: erase_def split: if_splits)

lemma assign_unregistered: "map_of ws name = None \<Longrightarrow> assign name w' ws = ws"
  by (induction ws) (auto simp: assign_def split: if_splits)

lemma assign_snoc_new:
  "map_of ws name = None \<Longrightarrow> assign name w' (ws @ [(name, w)]) = ws @ [(name, w')]"
  using assign_unregistered [of ws name w'] by (simp add: assign_def)

lemma map_of_snoc_new:
  "map_of ws name = None \<Longrightarrow> map_of (ws @ [(name, w)]) name = Some w"
  by (simp add: map_add_def)




subsection \<open>Unfolding the examples\<close>

lemmas ex_defs = ex_manager_def ex_vault_def ex_a_def ex_b_def ex_txn_def
  ex_keyless_def ex_keyless_manager_def ex_empty_manager_def ex_files_def ex_bob_def

lemmas sw_defs = soft_api_def sw_unlock_def sw_try_sign_digest_def sw_sign_def
  sw_load_wallet_file_def sw_save_wallet_file_def

lemmas time_defs = check_timeout_def lock_all_def timepoint_max_def tp_plus_def wrap64_def Let_def

lemmas name_defs = valid_filename_def is_alnum_def is_any_of_def path_filename_def
  path_append_def file_ext_def

subsection \<open>Signing\<close>

lemma sign_scan_first:
  "list_all (\<lambda>i. declines api d pk (snd i)) pre \<Longrightarrow> \<not> w_is_locked api w \<Longrightarrow>
   w_try_sign_digest api w d pk = Some sig \<Longrightarrow>
   sign_scan api (pre @ (n, w) # post) d pk = Some sig"
  by (induction pre) (auto simp: declines_def)

lemma names_check_timeout:
  "map fst (wallets (check_timeout api now m)) = map fst (wallets m)"
  by (simp add: wallets_check_timeout wallets_lock_all)

lemma open_registers_last:
  assumes "valid_filename name" and "loaded_wallet api name fs m = Some w"
  shows "open api now name fs m =
     (Inr (), (check_timeout api now m)
                \<lparr>wallets := erase name (wallets (check_timeout api now m)) @ [(name, w)]\<rparr>)"
proof -
  let ?m1 = "check_timeout api now m"
  have e: "(if map_of (wallets ?m1) name \<noteq> None then erase name (wallets ?m1) else wallets ?m1) =
      erase name (wallets ?m1)"
    by (simp add: erase_unregistered)
  have p: "emplace name w (erase name (wallets ?m1)) = erase name (wallets ?m1) @ [(name, w)]"
    by (simp add: emplace_def map_of_erase)
  from assms show ?thesis
    unfolding open_def Let_def e
    by (simp add: loaded_wallet_def check_timeout_other_fields p)
qed

lemma sign_scan_none:
  "list_all (\<lambda>i. declines api d pk (snd i)) ws \<Longrightarrow> sign_scan api ws d pk = None"
  by (induction ws) (auto simp: declines_def)

text \<open>
  C1. After the timeout check, \<^verbatim>\<open>sign_digest\<close> scans the registry in its iteration order
  (the order of registration). If the registry splits into wallets that all decline (locked,
  or no signature for the key), then an unlocked wallet whose \<^verbatim>\<open>try_sign_digest\<close> returns
  a signature, then any further wallets, the result is that signature, whatever the further
  wallets are. If every wallet declines, the call fails with
  \<open>wallet_missing_pub_key_exception\<close> for that key. \<^verbatim>\<open>sign_transaction\<close> runs the
  same scan for each requested key in turn, on the digest of the transaction: a match
  appends the signature and goes on with the remaining keys, and a key that every wallet
  declines ends the call with \<open>wallet_missing_pub_key_exception\<close> for that key.
  The order of the registry is the order of registration: the timeout check keeps the order
  of the names, \<^verbatim>\<open>own_and_use_wallet\<close> adds the new wallet at the end, and \<^verbatim>\<open>open\<close> puts
  the wallet it loads at the end, after removing an entry of the same name.
\<close>

theorem sign_first_match_wins:
  fixes api :: "('w, 'fs) wallet_api"
  shows
  "(\<forall>pre n w post sig.
      wallets (check_timeout api now m) = pre @ (n, w) # post \<and>
      list_all (\<lambda>i. declines api digest key (snd i)) pre \<and>
      \<not> w_is_locked api w \<and> w_try_sign_digest api w digest key = Some sig \<longrightarrow>
      sign_digest api now digest key m = (Inr sig, check_timeout api now m)) \<and>
   (list_all (\<lambda>i. declines api digest key (snd i)) (wallets (check_timeout api now m)) \<longrightarrow>
      sign_digest api now digest key m =
        (Inl (wallet_missing_pub_key_exception key), check_timeout api now m)) \<and>
   sign_transaction api now txn keys chain_id m =
     (sign_keys api chain_id (wallets (check_timeout api now m)) txn keys,
      check_timeout api now m) \<and>
   (\<forall>ws stxn. sign_keys api chain_id ws stxn [] = Inr stxn) \<and>
   (\<forall>ws stxn pk pks pre n w post sig.
      ws = pre @ (n, w) # post \<and>
      list_all (\<lambda>i. declines api (sig_digest api stxn chain_id) pk (snd i)) pre \<and>
      \<not> w_is_locked api w \<and>
      w_try_sign_digest api w (sig_digest api stxn chain_id) pk = Some sig \<longrightarrow>
      sign_keys api chain_id ws stxn (pk # pks) =
        sign_keys api chain_id ws (stxn\<lparr>signatures := signatures stxn @ [sig]\<rparr>) pks) \<and>
   (\<forall>ws stxn pk pks.
      list_all (\<lambda>i. declines api (sig_digest api stxn chain_id) pk (snd i)) ws \<longrightarrow>
      sign_keys api chain_id ws stxn (pk # pks) = Inl (wallet_missing_pub_key_exception pk)) \<and>
   map fst (wallets (check_timeout api now m)) = map fst (wallets m) \<and>
   (\<forall>name w. map_of (wallets m) name = None \<longrightarrow>
      own_and_use_wallet name w m = (Inr (), m\<lparr>wallets := wallets m @ [(name, w)]\<rparr>)) \<and>
   (\<forall>name w fs. valid_filename name \<and> loaded_wallet api name fs m = Some w \<longrightarrow>
      open api now name fs m =
        (Inr (), (check_timeout api now m)
                   \<lparr>wallets := erase name (wallets (check_timeout api now m)) @ [(name, w)]\<rparr>))"
  by (simp add: sign_digest_def sign_transaction_def Let_def sign_scan_first sign_scan_none
      names_check_timeout own_and_use_wallet_def emplace_def open_registers_last)

theorem sign_first_match_wins_witness:
  "sign_digest soft_api 7 ''dd'' ''K'' ex_manager =
     (Inr ''SIG(ska,dd)'', check_timeout soft_api 7 ex_manager) \<and>
   sign_digest soft_api 7 ''dd'' ''Q'' ex_manager =
     (Inl (wallet_missing_pub_key_exception ''Q''), check_timeout soft_api 7 ex_manager) \<and>
   sign_transaction soft_api 7 ex_txn [''K''] ''c'' ex_manager =
     (Inr (ex_txn\<lparr>signatures := [''SIG(ska,H(c,transfer))'']\<rparr>), check_timeout soft_api 7 ex_manager) \<and>
   sign_transaction soft_api 7 ex_txn [''K'', ''Q''] ''c'' ex_manager =
     (Inl (wallet_missing_pub_key_exception ''Q''), check_timeout soft_api 7 ex_manager) \<and>
   own_and_use_wallet ''bob'' ex_bob ex_manager =
     (Inr (), ex_manager\<lparr>wallets := wallets ex_manager @ [(''bob'', ex_bob)]\<rparr>) \<and>
   open soft_api 7 ''bob'' ex_files ex_manager =
     (Inr (), (check_timeout soft_api 7 ex_manager)
                \<lparr>wallets := erase ''bob'' (wallets (check_timeout soft_api 7 ex_manager)) @
                             [(''bob'', ex_bob)]\<rparr>)"
proof -
  let ?m1 = "check_timeout soft_api 7 ex_manager"
  have ws: "wallets ?m1 = [(''vault'', ex_vault)] @ (''a'', ex_a) # [(''b'', ex_b)]"
    by (simp add: ex_manager_def time_defs)
  have pre: "list_all (\<lambda>i. declines soft_api d ''K'' (snd i)) [(''vault'', ex_vault)]" for d
    by (simp add: declines_def ex_defs sw_defs)
  have a: "\<not> w_is_locked soft_api ex_a"
    "w_try_sign_digest soft_api ex_a ''dd'' ''K'' = Some ''SIG(ska,dd)''"
    "w_try_sign_digest soft_api ex_a (sig_digest soft_api ex_txn ''c'') ''K'' = Some ''SIG(ska,H(c,transfer))''"
    by (simp_all add: ex_defs sw_defs)
  have q: "list_all (\<lambda>i. declines soft_api d ''Q'' (snd i)) (wallets ?m1)" for d
    unfolding ws by (simp add: declines_def ex_defs sw_defs)
  note T1 = sign_first_match_wins [where api = soft_api and now = 7 and m = ex_manager
      and digest = "''dd''" and key = "''K''" and txn = ex_txn and keys = "[''K'']"
      and chain_id = "''c''"]
  note T2 = sign_first_match_wins [where api = soft_api and now = 7 and m = ex_manager
      and digest = "''dd''" and key = "''Q''" and txn = ex_txn and keys = "[''K'', ''Q'']"
      and chain_id = "''c''"]
  have c1: "sign_digest soft_api 7 ''dd'' ''K'' ex_manager = (Inr ''SIG(ska,dd)'', ?m1)"
    by (rule T1 [THEN conjunct1, rule_format, OF conjI [OF ws conjI [OF pre conjI [OF a(1) a(2)]]]])
  have c2: "sign_digest soft_api 7 ''dd'' ''Q'' ex_manager =
     (Inl (wallet_missing_pub_key_exception ''Q''), ?m1)"
    by (rule T2 [THEN conjunct2, THEN conjunct1, rule_format]) (rule q)
  have run: "sign_transaction soft_api 7 ex_txn keys ''c'' ex_manager =
      (sign_keys soft_api ''c'' (wallets ?m1) ex_txn keys, ?m1)" for keys
    by (rule sign_first_match_wins [THEN conjunct2, THEN conjunct2, THEN conjunct1])
  have fin: "sign_keys soft_api ''c'' (wallets ?m1) stxn [] = Inr stxn" for stxn
    by (rule T1 [THEN conjunct2, THEN conjunct2, THEN conjunct2, THEN conjunct1, rule_format])
  have step: "sign_keys soft_api ''c'' (wallets ?m1) ex_txn (''K'' # pks) =
      sign_keys soft_api ''c'' (wallets ?m1)
        (ex_txn\<lparr>signatures := signatures ex_txn @ [''SIG(ska,H(c,transfer))'']\<rparr>) pks" for pks
    by (rule T1 [THEN conjunct2, THEN conjunct2, THEN conjunct2, THEN conjunct2,
          THEN conjunct1, rule_format, OF conjI [OF ws conjI [OF pre conjI [OF a(1) a(3)]]]])
  have miss: "sign_keys soft_api ''c'' (wallets ?m1) stxn (''Q'' # pks) =
      Inl (wallet_missing_pub_key_exception ''Q'')" for stxn pks
    by (rule T1 [THEN conjunct2, THEN conjunct2, THEN conjunct2, THEN conjunct2,
          THEN conjunct2, THEN conjunct1, rule_format])
       (rule q)
  have sigs: "ex_txn\<lparr>signatures := signatures ex_txn @ [''SIG(ska,H(c,transfer))'']\<rparr> =
      ex_txn\<lparr>signatures := [''SIG(ska,H(c,transfer))'']\<rparr>"
    by (simp add: ex_txn_def)
  have c3: "sign_transaction soft_api 7 ex_txn [''K''] ''c'' ex_manager =
     (Inr (ex_txn\<lparr>signatures := [''SIG(ska,H(c,transfer))'']\<rparr>), ?m1)"
    unfolding run step fin sigs ..
  have c4: "sign_transaction soft_api 7 ex_txn [''K'', ''Q''] ''c'' ex_manager =
     (Inl (wallet_missing_pub_key_exception ''Q''), ?m1)"
    unfolding run step miss ..
  have h5: "map_of (wallets ex_manager) ''bob'' = None"
    by (simp add: ex_defs)
  have c5: "own_and_use_wallet ''bob'' ex_bob ex_manager =
     (Inr (), ex_manager\<lparr>wallets := wallets ex_manager @ [(''bob'', ex_bob)]\<rparr>)"
    by (rule T1 [THEN conjunct2, THEN conjunct2, THEN conjunct2, THEN conjunct2,
          THEN conjunct2, THEN conjunct2, THEN conjunct2, THEN conjunct1, rule_format, OF h5])
  have h6: "valid_filename ''bob'' \<and> loaded_wallet soft_api ''bob'' ex_files ex_manager = Some ex_bob"
    by (simp add: ex_defs name_defs loaded_wallet_def sw_defs)
  have c6: "open soft_api 7 ''bob'' ex_files ex_manager =
     (Inr (), (check_timeout soft_api 7 ex_manager)
                \<lparr>wallets := erase ''bob'' (wallets (check_timeout soft_api 7 ex_manager)) @
                             [(''bob'', ex_bob)]\<rparr>)"
    by (rule T1 [THEN conjunct2, THEN conjunct2, THEN conjunct2, THEN conjunct2,
          THEN conjunct2, THEN conjunct2, THEN conjunct2, THEN conjunct2, rule_format, OF h6])
  from c1 c2 c3 c4 c5 c6 show ?thesis by (intro conjI)
qed

subsection \<open>Aggregating public keys\<close>

lemma get_public_keys_loop_result:
  "get_public_keys_loop api ws (result, locked) =
     (result \<union> (\<Union>i\<in>set (filter (\<lambda>i. \<not> w_is_locked api (snd i)) ws).
                   w_list_public_keys api (snd i)),
      locked \<and> list_all (\<lambda>i. w_is_locked api (snd i)) ws)"
  by (induction ws arbitrary: result locked) auto

lemma get_public_keys_cases:
  "get_public_keys api now m =
     (if wallets (check_timeout api now m) = [] then Inl wallet_not_available_exception
      else if list_all (\<lambda>i. w_is_locked api (snd i)) (wallets (check_timeout api now m))
      then Inl wallet_locked_exception
      else Inr (\<Union>i\<in>set (filter (\<lambda>i. \<not> w_is_locked api (snd i)) (wallets (check_timeout api now m))).
                  w_list_public_keys api (snd i)),
      check_timeout api now m)"
  by (simp add: get_public_keys_def Let_def get_public_keys_loop_result)

text \<open>
  C4. \<^verbatim>\<open>get_public_keys\<close> fails with \<open>wallet_not_available_exception\<close>
  (NoWalletsAvailable) exactly when the registry is empty. It fails with
  \<open>wallet_locked_exception\<close> (AllWalletsLocked) exactly when the registry is not empty and
  every registered wallet is locked once the timeout check has run; the union over the
  unlocked wallets is then empty. Otherwise it returns the union of the public keys of the
  unlocked wallets. The two exceptions differ, and the state left behind is the one
  \<^verbatim>\<open>check_timeout\<close> leaves.
\<close>

theorem get_public_keys_failures:
  fixes api :: "('w, 'fs) wallet_api"
  shows
  "(fst (get_public_keys api now m) = Inl wallet_not_available_exception) = (wallets m = []) \<and>
   (fst (get_public_keys api now m) = Inl wallet_locked_exception) =
     (wallets m \<noteq> [] \<and>
      list_all (\<lambda>i. w_is_locked api (snd i)) (wallets (check_timeout api now m))) \<and>
   (list_all (\<lambda>i. w_is_locked api (snd i)) (wallets (check_timeout api now m)) \<longrightarrow>
      (\<Union>i\<in>set (filter (\<lambda>i. \<not> w_is_locked api (snd i)) (wallets (check_timeout api now m))).
          w_list_public_keys api (snd i)) = {}) \<and>
   (wallets m \<noteq> [] \<and>
    \<not> list_all (\<lambda>i. w_is_locked api (snd i)) (wallets (check_timeout api now m)) \<longrightarrow>
      fst (get_public_keys api now m) =
        Inr (\<Union>i\<in>set (filter (\<lambda>i. \<not> w_is_locked api (snd i)) (wallets (check_timeout api now m))).
                w_list_public_keys api (snd i))) \<and>
   snd (get_public_keys api now m) = check_timeout api now m \<and>
   wallet_not_available_exception \<noteq> wallet_locked_exception"
  by (auto simp: get_public_keys_cases empty_check_timeout list_all_iff)

theorem get_public_keys_failures_witness:
  "fst (get_public_keys soft_api 7 ex_empty_manager) = Inl wallet_not_available_exception \<and>
   fst (get_public_keys soft_api 100 ex_manager) = Inl wallet_locked_exception \<and>
   fst (get_public_keys soft_api 7 ex_manager) = Inr {''K''}"
proof -
  have e: "wallets ex_empty_manager = []"
    by (simp add: ex_empty_manager_def)
  have l: "wallets ex_manager \<noteq> [] \<and>
      list_all (\<lambda>i. w_is_locked soft_api (snd i)) (wallets (check_timeout soft_api 100 ex_manager))"
    by (simp add: ex_defs sw_defs time_defs)
  have u: "wallets ex_manager \<noteq> [] \<and>
      \<not> list_all (\<lambda>i. w_is_locked soft_api (snd i)) (wallets (check_timeout soft_api 7 ex_manager))"
    by (simp add: ex_defs sw_defs time_defs)
  have keys: "(\<Union>i\<in>set (filter (\<lambda>i. \<not> w_is_locked soft_api (snd i)) (wallets (check_timeout soft_api 7 ex_manager))). w_list_public_keys soft_api (snd i)) = {''K''}"
    by (simp add: ex_defs sw_defs time_defs)
  note T = get_public_keys_failures [where api = soft_api]
  have c1: "fst (get_public_keys soft_api 7 ex_empty_manager) = Inl wallet_not_available_exception"
    using T [of 7 ex_empty_manager, THEN conjunct1] e by (rule iffD2)
  have c2: "fst (get_public_keys soft_api 100 ex_manager) = Inl wallet_locked_exception"
    using T [of 100 ex_manager, THEN conjunct2, THEN conjunct1] l by (rule iffD2)
  have c3: "fst (get_public_keys soft_api 7 ex_manager) = Inr {''K''}"
    using T [of 7 ex_manager, THEN conjunct2, THEN conjunct2, THEN conjunct2, THEN conjunct1,
        rule_format, OF u]
    unfolding keys .
  from c1 c2 c3 show ?thesis by (intro conjI)
qed

text \<open>
  C10. If, once the timeout check has run, some registered wallet is unlocked and every
  unlocked wallet holds no public key, \<^verbatim>\<open>get_public_keys\<close> succeeds with the empty set:
  the failure \<open>wallet_locked_exception\<close> is decided by the wallets all being locked, not
  by the union being empty.
\<close>

theorem get_public_keys_empty_union:
  fixes api :: "('w, 'fs) wallet_api"
  assumes "\<exists>i\<in>set (wallets (check_timeout api now m)). \<not> w_is_locked api (snd i)"
    and "\<forall>i\<in>set (wallets (check_timeout api now m)).
           \<not> w_is_locked api (snd i) \<longrightarrow> w_list_public_keys api (snd i) = {}"
  shows "get_public_keys api now m = (Inr {}, check_timeout api now m)"
  using assms by (auto simp: get_public_keys_cases list_all_iff)

theorem get_public_keys_empty_union_witness:
  "get_public_keys soft_api 7 ex_keyless_manager =
     (Inr {}, check_timeout soft_api 7 ex_keyless_manager)"
proof -
  have h1: "\<exists>i\<in>set (wallets (check_timeout soft_api 7 ex_keyless_manager)).
      \<not> w_is_locked soft_api (snd i)"
    by (simp add: ex_defs sw_defs time_defs)
  have h2: "\<forall>i\<in>set (wallets (check_timeout soft_api 7 ex_keyless_manager)).
      \<not> w_is_locked soft_api (snd i) \<longrightarrow> w_list_public_keys soft_api (snd i) = {}"
    by (simp add: ex_defs sw_defs time_defs)
  show ?thesis by (rule get_public_keys_empty_union [OF h1 h2])
qed

subsection \<open>Locking one wallet\<close>

text \<open>
  C7 (as amended). \<^verbatim>\<open>lock(name)\<close> runs the timeout check and then: an unregistered name
  fails with \<open>wallet_nonexistent_exception\<close>; a wallet that is locked (before the call, or
  once the timeout check has run) makes the call return successfully without calling the
  wallet's \<^verbatim>\<open>lock\<close>, in the state that \<^verbatim>\<open>check_timeout\<close> alone leaves; a wallet that is
  still unlocked is locked through the capability. A second \<^verbatim>\<open>lock(name)\<close> changes nothing
  beyond its own timeout check, for a capability whose \<^verbatim>\<open>lock\<close> leaves the wallet locked.
\<close>

theorem lock_outcomes:
  fixes api :: "('w, 'fs) wallet_api"
  shows
  "(map_of (wallets m) name = None \<longrightarrow>
      lock api now name m = (Inl wallet_nonexistent_exception, check_timeout api now m)) \<and>
   (\<forall>w. map_of (wallets m) name = Some w \<and> w_is_locked api w \<longrightarrow>
      lock api now name m = (Inr (), check_timeout api now m)) \<and>
   (\<forall>w. map_of (wallets (check_timeout api now m)) name = Some w \<and> w_is_locked api w \<longrightarrow>
      lock api now name m = (Inr (), check_timeout api now m)) \<and>
   (\<forall>w. map_of (wallets (check_timeout api now m)) name = Some w \<and> \<not> w_is_locked api w \<longrightarrow>
      lock api now name m =
        (Inr (), (check_timeout api now m)
                   \<lparr>wallets := assign name (w_lock api w) (wallets (check_timeout api now m))\<rparr>) \<and>
      map_of (wallets (snd (lock api now name m))) name = Some (w_lock api w)) \<and>
   ((\<forall>w. w_is_locked api (w_lock api w)) \<and> map_of (wallets m) name \<noteq> None \<longrightarrow>
      lock api now' name (snd (lock api now name m)) =
        (Inr (), check_timeout api now' (snd (lock api now name m))))"
proof (intro conjI allI impI)
  assume "map_of (wallets m) name = None"
  then have "map_of (wallets (check_timeout api now m)) name = None"
    by (simp add: registered_check_timeout)
  then show "lock api now name m = (Inl wallet_nonexistent_exception, check_timeout api now m)"
    by (simp add: lock_def Let_def)
next
  fix w assume "map_of (wallets m) name = Some w \<and> w_is_locked api w"
  then have "map_of (wallets (check_timeout api now m)) name = Some w"
    by (simp add: wallets_check_timeout map_of_lock_all)
  with \<open>map_of (wallets m) name = Some w \<and> w_is_locked api w\<close>
  show "lock api now name m = (Inr (), check_timeout api now m)"
    by (simp add: lock_def Let_def)
next
  fix w assume "map_of (wallets (check_timeout api now m)) name = Some w \<and> w_is_locked api w"
  then show "lock api now name m = (Inr (), check_timeout api now m)"
    by (simp add: lock_def Let_def)
next
  fix w assume a: "map_of (wallets (check_timeout api now m)) name = Some w \<and> \<not> w_is_locked api w"
  then show "lock api now name m =
        (Inr (), (check_timeout api now m)
                   \<lparr>wallets := assign name (w_lock api w) (wallets (check_timeout api now m))\<rparr>)"
    by (simp add: lock_def Let_def)
  from a show "map_of (wallets (snd (lock api now name m))) name = Some (w_lock api w)"
    by (simp add: lock_def Let_def map_of_assign)
next
  assume c: "(\<forall>w. w_is_locked api (w_lock api w)) \<and> map_of (wallets m) name \<noteq> None"
  let ?m2 = "snd (lock api now name m)"
  from c obtain w where w: "map_of (wallets (check_timeout api now m)) name = Some w"
    using registered_check_timeout [of api now m name] by auto
  have "\<exists>w2. map_of (wallets ?m2) name = Some w2 \<and> w_is_locked api w2"
    using w c by (cases "w_is_locked api w") (simp_all add: lock_def Let_def map_of_assign)
  then obtain w2 where w2: "map_of (wallets ?m2) name = Some w2" "w_is_locked api w2"
    by blast
  then have "map_of (wallets (check_timeout api now' ?m2)) name = Some w2"
    by (simp add: wallets_check_timeout map_of_lock_all)
  with w2 show "lock api now' name ?m2 = (Inr (), check_timeout api now' ?m2)"
    by (simp add: lock_def Let_def)
qed

theorem lock_outcomes_witness:
  "lock soft_api 7 ''zed'' ex_manager =
     (Inl wallet_nonexistent_exception, check_timeout soft_api 7 ex_manager) \<and>
   lock soft_api 100 ''vault'' ex_manager = (Inr (), check_timeout soft_api 100 ex_manager) \<and>
   lock soft_api 7 ''vault'' ex_manager = (Inr (), check_timeout soft_api 7 ex_manager) \<and>
   map_of (wallets (snd (lock soft_api 7 ''a'' ex_manager))) ''a'' = Some (w_lock soft_api ex_a) \<and>
   lock soft_api 9 ''a'' (snd (lock soft_api 7 ''a'' ex_manager)) =
     (Inr (), check_timeout soft_api 9 (snd (lock soft_api 7 ''a'' ex_manager)))"
proof -
  note T = lock_outcomes [where api = soft_api and m = ex_manager]
  have h1: "map_of (wallets ex_manager) ''zed'' = None"
    by (simp add: ex_defs)
  have h2: "map_of (wallets ex_manager) ''vault'' = Some ex_vault \<and> w_is_locked soft_api ex_vault"
    by (simp add: ex_defs sw_defs)
  have h3: "map_of (wallets (check_timeout soft_api 7 ex_manager)) ''vault'' = Some ex_vault \<and>
      w_is_locked soft_api ex_vault"
    by (simp add: ex_defs sw_defs time_defs)
  have h4: "map_of (wallets (check_timeout soft_api 7 ex_manager)) ''a'' = Some ex_a \<and>
      \<not> w_is_locked soft_api ex_a"
    by (simp add: ex_defs sw_defs time_defs)
  have h5: "(\<forall>w. w_is_locked soft_api (w_lock soft_api w)) \<and>
      map_of (wallets ex_manager) ''a'' \<noteq> None"
    by (simp add: ex_defs sw_defs)
  have c1: "lock soft_api 7 ''zed'' ex_manager =
     (Inl wallet_nonexistent_exception, check_timeout soft_api 7 ex_manager)"
    by (rule T [THEN conjunct1, rule_format, OF h1])
  have c2: "lock soft_api 100 ''vault'' ex_manager = (Inr (), check_timeout soft_api 100 ex_manager)"
    by (rule T [THEN conjunct2, THEN conjunct1, rule_format, OF h2])
  have c3: "lock soft_api 7 ''vault'' ex_manager = (Inr (), check_timeout soft_api 7 ex_manager)"
    by (rule T [THEN conjunct2, THEN conjunct2, THEN conjunct1, rule_format, OF h3])
  have c4: "map_of (wallets (snd (lock soft_api 7 ''a'' ex_manager))) ''a'' =
      Some (w_lock soft_api ex_a)"
    by (rule T [THEN conjunct2, THEN conjunct2, THEN conjunct2, THEN conjunct1, rule_format,
          OF h4, THEN conjunct2])
  have c5: "lock soft_api 9 ''a'' (snd (lock soft_api 7 ''a'' ex_manager)) =
     (Inr (), check_timeout soft_api 9 (snd (lock soft_api 7 ''a'' ex_manager)))"
    by (rule T [THEN conjunct2, THEN conjunct2, THEN conjunct2, THEN conjunct2, rule_format,
          OF h5])
  from c1 c2 c3 c4 c5 show ?thesis by (intro conjI)
qed

text \<open>
  The claim as stated has \<^verbatim>\<open>lock\<close> on a locked wallet leave all state unchanged. At tick
  100 the expiry of the example (tick 10) has passed: locking the locked wallet \<open>vault\<close>
  locks the wallets \<open>a\<close> and \<open>b\<close> and moves the expiry to tick 105.
\<close>

theorem lock_changes_state_counterexample:
  "map_of (wallets ex_manager) ''vault'' = Some ex_vault \<and> w_is_locked soft_api ex_vault \<and>
   lock soft_api 100 ''vault'' ex_manager =
     (Inr (), ex_manager\<lparr>wallets := [(''vault'', ex_vault), (''a'', ex_a\<lparr>sw_locked := True\<rparr>),
                                       (''b'', ex_b\<lparr>sw_locked := True\<rparr>)],
                          timeout_time := 105\<rparr>) \<and>
   snd (lock soft_api 100 ''vault'' ex_manager) \<noteq> ex_manager"
  by (simp add: lock_def ex_defs sw_defs time_defs)

subsection \<open>Names\<close>

lemma path_filename_no_separator:
  "CHR ''/'' \<notin> set p \<Longrightarrow> path_filename p = p"
proof -
  assume "CHR ''/'' \<notin> set p"
  then have eq: "takeWhile (\<lambda>c. c \<noteq> CHR ''/'') (rev p) = rev p"
    by (auto simp: takeWhile_eq_all_conv)
  show ?thesis unfolding path_filename_def eq by simp
qed

lemma separators_not_allowed:
  "\<not> is_alnum (CHR ''/'')" "\<not> is_any_of ''._-'' (CHR ''/'')"
  "\<not> is_alnum (CHR 0x5C)" "\<not> is_any_of ''._-'' (CHR 0x5C)"
  by (simp_all add: is_alnum_def is_any_of_def)

lemma valid_filename_iff:
  "valid_filename name =
     (name \<noteq> [] \<and> (\<forall>c\<in>set name. is_alnum c \<or> is_any_of ''._-'' c))"
proof (cases "\<forall>c\<in>set name. is_alnum c \<or> is_any_of ''._-'' c")
  case True
  then have "CHR ''/'' \<notin> set name"
    using separators_not_allowed by blast
  then have "path_filename name = name"
    by (rule path_filename_no_separator)
  moreover from True have "find (\<lambda>c. \<not> is_alnum c \<and> \<not> is_any_of ''._-'' c) name = None"
    by (simp add: find_None_iff)
  ultimately show ?thesis using True by (simp add: valid_filename_def)
next
  case False
  then have "find (\<lambda>c. \<not> is_alnum c \<and> \<not> is_any_of ''._-'' c) name \<noteq> None"
    by (auto simp: find_None_iff)
  then show ?thesis using False by (simp add: valid_filename_def)
qed

lemma create_invalid_name:
  "\<not> valid_filename name \<Longrightarrow>
   create api now key name fs m = (Inl wallet_exception, check_timeout api now m, fs)"
  by (simp add: create_def Let_def)

lemma open_invalid_name:
  "\<not> valid_filename name \<Longrightarrow>
   open api now name fs m = (Inl wallet_exception, check_timeout api now m)"
  by (simp add: open_def Let_def)

text \<open>
  C8. For a name that is empty, contains \<^verbatim>\<open>/\<close> or a backslash, or differs from its file
  name component, \<^verbatim>\<open>create\<close> and \<^verbatim>\<open>open\<close> fail with \<open>wallet_exception\<close> (InvalidName)
  right after the timeout check: the outcome is the same for every file system, and
  \<^verbatim>\<open>create\<close> returns the file system as it was. A non-empty name made of letters, digits,
  \<^verbatim>\<open>.\<close>, \<^verbatim>\<open>_\<close> and \<^verbatim>\<open>-\<close> is accepted by \<^verbatim>\<open>valid_filename\<close>.
\<close>

theorem invalid_names_rejected:
  fixes api :: "('w, 'fs) wallet_api"
  shows
  "(name = [] \<or> CHR ''/'' \<in> set name \<or> CHR 0x5C \<in> set name \<or> path_filename name \<noteq> name \<longrightarrow>
      create api now key name fs m = (Inl wallet_exception, check_timeout api now m, fs) \<and>
      open api now name fs m = (Inl wallet_exception, check_timeout api now m)) \<and>
   (name \<noteq> [] \<and>
    list_all (\<lambda>c. c \<in> set ''0123456789ABCDEFGHIJKLMNOPQRSTUVWXYZabcdefghijklmnopqrstuvwxyz._-'')
      name \<longrightarrow>
      valid_filename name)"
proof (intro conjI impI)
  assume bad: "name = [] \<or> CHR ''/'' \<in> set name \<or> CHR 0x5C \<in> set name \<or>
    path_filename name \<noteq> name"
  have "\<not> valid_filename name"
  proof
    assume v: "valid_filename name"
    then have "CHR ''/'' \<notin> set name" "CHR 0x5C \<notin> set name" "name \<noteq> []"
      using separators_not_allowed by (auto simp: valid_filename_iff)
    with bad path_filename_no_separator show False by blast
  qed
  then show "create api now key name fs m = (Inl wallet_exception, check_timeout api now m, fs)"
    and "open api now name fs m = (Inl wallet_exception, check_timeout api now m)"
    by (simp_all add: create_invalid_name open_invalid_name)
next
  assume ok: "name \<noteq> [] \<and>
    list_all (\<lambda>c. c \<in> set ''0123456789ABCDEFGHIJKLMNOPQRSTUVWXYZabcdefghijklmnopqrstuvwxyz._-'')
      name"
  have "list_all (\<lambda>c. is_alnum c \<or> is_any_of ''._-'' c)
      ''0123456789ABCDEFGHIJKLMNOPQRSTUVWXYZabcdefghijklmnopqrstuvwxyz._-''"
    by (simp add: is_alnum_def is_any_of_def)
  then have "is_alnum c \<or> is_any_of ''._-'' c"
    if "c \<in> set ''0123456789ABCDEFGHIJKLMNOPQRSTUVWXYZabcdefghijklmnopqrstuvwxyz._-''" for c
    using that unfolding list_all_iff by blast
  with ok show "valid_filename name"
    unfolding valid_filename_iff list_all_iff by blast
qed

theorem invalid_names_rejected_witness:
  "create soft_api 7 ''key'' ''a/b'' ex_files ex_manager =
     (Inl wallet_exception, check_timeout soft_api 7 ex_manager, ex_files) \<and>
   open soft_api 7 ''a/b'' ex_files ex_manager =
     (Inl wallet_exception, check_timeout soft_api 7 ex_manager) \<and>
   create soft_api 7 ''key'' [] ex_files ex_manager =
     (Inl wallet_exception, check_timeout soft_api 7 ex_manager, ex_files) \<and>
   open soft_api 7 [CHR 0x5C, CHR ''a''] ex_files ex_manager =
     (Inl wallet_exception, check_timeout soft_api 7 ex_manager) \<and>
   valid_filename ''alice'' \<and> valid_filename ''my-wallet_2.bak''"
proof -
  note T = invalid_names_rejected [where api = soft_api and now = 7 and key = "''key''"
      and fs = ex_files and m = ex_manager]
  have b1: "''a/b'' = [] \<or> CHR ''/'' \<in> set ''a/b'' \<or> CHR 0x5C \<in> set ''a/b'' \<or>
      path_filename ''a/b'' \<noteq> ''a/b''"
    by simp
  have b2: "([] :: string) = [] \<or> CHR ''/'' \<in> set ([] :: string) \<or> CHR 0x5C \<in> set ([] :: string) \<or>
      path_filename [] \<noteq> []"
    by simp
  have b3: "[CHR 0x5C, CHR ''a''] = [] \<or> CHR ''/'' \<in> set [CHR 0x5C, CHR ''a''] \<or>
      CHR 0x5C \<in> set [CHR 0x5C, CHR ''a''] \<or>
      path_filename [CHR 0x5C, CHR ''a''] \<noteq> [CHR 0x5C, CHR ''a'']"
    by simp
  have g1: "''alice'' \<noteq> [] \<and>
    list_all (\<lambda>c. c \<in> set ''0123456789ABCDEFGHIJKLMNOPQRSTUVWXYZabcdefghijklmnopqrstuvwxyz._-'')
      ''alice''"
    by simp
  have g2: "''my-wallet_2.bak'' \<noteq> [] \<and>
    list_all (\<lambda>c. c \<in> set ''0123456789ABCDEFGHIJKLMNOPQRSTUVWXYZabcdefghijklmnopqrstuvwxyz._-'')
      ''my-wallet_2.bak''"
    by simp
  note c1 = T [THEN conjunct1, rule_format, OF b1]
  note c2 = T [THEN conjunct1, rule_format, OF b2]
  note c3 = T [THEN conjunct1, rule_format, OF b3]
  note c4 = T [THEN conjunct2, rule_format, OF g1]
  note c5 = T [THEN conjunct2, rule_format, OF g2]
  from c1 [THEN conjunct1] c1 [THEN conjunct2] c2 [THEN conjunct1] c3 [THEN conjunct2] c4 c5
  show ?thesis by (intro conjI)
qed

subsection \<open>Unlocking\<close>

lemma open_missing_file:
  "valid_filename name \<Longrightarrow> loaded_wallet api name fs m = None \<Longrightarrow>
   open api now name fs m = (Inl wallet_nonexistent_exception, check_timeout api now m)"
  by (simp add: open_def Let_def loaded_wallet_def check_timeout_other_fields)

lemma open_unregistered:
  "map_of (wallets m) name = None \<Longrightarrow> valid_filename name \<Longrightarrow>
   loaded_wallet api name fs m = Some w \<Longrightarrow>
   open api now name fs m =
     (Inr (), (check_timeout api now m)
                \<lparr>wallets := wallets (check_timeout api now m) @ [(name, w)]\<rparr>)"
proof -
  assume a: "map_of (wallets m) name = None" "valid_filename name"
    "loaded_wallet api name fs m = Some w"
  from a(1) have "map_of (wallets (check_timeout api now m)) name = None"
    by (simp add: registered_check_timeout)
  with a show ?thesis
    by (simp add: open_def Let_def loaded_wallet_def check_timeout_other_fields emplace_def)
qed

lemma unlock_registered:
  "map_of (wallets (check_timeout api now m)) name = Some w \<Longrightarrow>
   unlock api now now' name password fs m =
     (if \<not> w_is_locked api w then (Inl wallet_unlocked_exception, check_timeout api now m)
      else case w_unlock api w password of
             Inl e \<Rightarrow> (Inl e, check_timeout api now m)
           | Inr w' \<Rightarrow>
               (Inr (), (check_timeout api now m)
                          \<lparr>wallets := assign name w' (wallets (check_timeout api now m))\<rparr>))"
  by (simp add: unlock_def Let_def split: sum.splits)

lemma unlock_unregistered:
  "map_of (wallets m) name = None \<Longrightarrow>
   unlock api now now' name password fs m =
     (case open api now' name fs (check_timeout api now m) of
        (Inl e, m2) \<Rightarrow> (Inl e, m2)
      | (Inr u, m2) \<Rightarrow>
          (case map_of (wallets m2) name of
             None \<Rightarrow> (Inl std_out_of_range, m2)
           | Some w \<Rightarrow>
               if \<not> w_is_locked api w then (Inl wallet_unlocked_exception, m2)
               else (case w_unlock api w password of
                       Inl e \<Rightarrow> (Inl e, m2)
                     | Inr w1 \<Rightarrow> (Inr (), m2\<lparr>wallets := assign name w1 (wallets m2)\<rparr>))))"
proof -
  assume "map_of (wallets m) name = None"
  then have "map_of (wallets (check_timeout api now m)) name = None"
    by (simp add: registered_check_timeout)
  then show ?thesis by (simp add: unlock_def Let_def)
qed

lemma loaded_wallet_check_timeout:
  "loaded_wallet api name fs (check_timeout api now m) = loaded_wallet api name fs m"
  by (simp add: loaded_wallet_def check_timeout_other_fields)

lemma unlock_auto_open:
  assumes "map_of (wallets m) name = None" "valid_filename name"
    "loaded_wallet api name fs m = Some w"
  shows "unlock api now now' name password fs m =
     (let m2 = check_timeout api now' (check_timeout api now m);
          registered = (\<lambda>x. m2\<lparr>wallets := wallets m2 @ [(name, x)]\<rparr>)
      in if \<not> w_is_locked api w then (Inl wallet_unlocked_exception, registered w)
         else case w_unlock api w password of
                Inl e \<Rightarrow> (Inl e, registered w)
              | Inr w' \<Rightarrow> (Inr (), registered w'))"
proof -
  let ?m1 = "check_timeout api now m"
  let ?m2 = "check_timeout api now' ?m1"
  have u1: "map_of (wallets ?m1) name = None"
    using assms(1) by (simp add: registered_check_timeout)
  then have u2: "map_of (wallets ?m2) name = None"
    by (simp add: registered_check_timeout)
  have o: "open api now' name fs ?m1 = (Inr (), ?m2\<lparr>wallets := wallets ?m2 @ [(name, w)]\<rparr>)"
    using u1 assms(2,3) by (simp add: open_unregistered loaded_wallet_check_timeout)
  show ?thesis
    unfolding unlock_unregistered [OF assms(1)] o
    by (simp add: Let_def map_of_snoc_new [OF u2] assign_snoc_new [OF u2] del: map_of_append
        split: sum.splits)
qed

text \<open>
  C3 (as amended). \<^verbatim>\<open>unlock(name, password)\<close> runs the timeout check and then: if the
  name is not registered it first attempts \<^verbatim>\<open>open(name)\<close>, and a failure of that attempt is
  the failure of \<^verbatim>\<open>unlock\<close>: \<open>wallet_exception\<close> (InvalidName) for a name that is not a
  valid file name, \<open>wallet_nonexistent_exception\<close> when the wallet file does not load. If
  the wallet is registered, by that attempt or before, and unlocked at that point, the call
  fails with \<open>wallet_unlocked_exception\<close>; otherwise it delegates to the wallet's
  \<^verbatim>\<open>unlock\<close>, passing its exception on (BadPassword on a mismatch) or storing the wallet
  it returns.
\<close>

theorem unlock_outcomes:
  fixes api :: "('w, 'fs) wallet_api"
  shows
  "(map_of (wallets m) name = None \<and> \<not> valid_filename name \<longrightarrow>
      unlock api now now' name password fs m =
        (Inl wallet_exception, check_timeout api now' (check_timeout api now m))) \<and>
   (map_of (wallets m) name = None \<and> valid_filename name \<and>
    loaded_wallet api name fs m = None \<longrightarrow>
      unlock api now now' name password fs m =
        (Inl wallet_nonexistent_exception, check_timeout api now' (check_timeout api now m))) \<and>
   (\<forall>w. map_of (wallets m) name = None \<and> valid_filename name \<and>
         loaded_wallet api name fs m = Some w \<longrightarrow>
      unlock api now now' name password fs m =
        (let m2 = check_timeout api now' (check_timeout api now m);
             registered = (\<lambda>x. m2\<lparr>wallets := wallets m2 @ [(name, x)]\<rparr>)
         in if \<not> w_is_locked api w then (Inl wallet_unlocked_exception, registered w)
            else case w_unlock api w password of
                   Inl e \<Rightarrow> (Inl e, registered w)
                 | Inr w' \<Rightarrow> (Inr (), registered w'))) \<and>
   (\<forall>w. map_of (wallets (check_timeout api now m)) name = Some w \<longrightarrow>
      unlock api now now' name password fs m =
        (let m1 = check_timeout api now m
         in if \<not> w_is_locked api w then (Inl wallet_unlocked_exception, m1)
            else case w_unlock api w password of
                   Inl e \<Rightarrow> (Inl e, m1)
                 | Inr w' \<Rightarrow> (Inr (), m1\<lparr>wallets := assign name w' (wallets m1)\<rparr>)))"
proof (intro conjI allI impI)
  assume "map_of (wallets m) name = None \<and> \<not> valid_filename name"
  then show "unlock api now now' name password fs m =
        (Inl wallet_exception, check_timeout api now' (check_timeout api now m))"
    by (simp add: unlock_unregistered open_invalid_name)
next
  assume "map_of (wallets m) name = None \<and> valid_filename name \<and>
    loaded_wallet api name fs m = None"
  then show "unlock api now now' name password fs m =
        (Inl wallet_nonexistent_exception, check_timeout api now' (check_timeout api now m))"
    by (simp add: unlock_unregistered open_missing_file loaded_wallet_check_timeout)
next
  fix w
  assume "map_of (wallets m) name = None \<and> valid_filename name \<and>
         loaded_wallet api name fs m = Some w"
  then show "unlock api now now' name password fs m =
        (let m2 = check_timeout api now' (check_timeout api now m);
             registered = (\<lambda>x. m2\<lparr>wallets := wallets m2 @ [(name, x)]\<rparr>)
         in if \<not> w_is_locked api w then (Inl wallet_unlocked_exception, registered w)
            else case w_unlock api w password of
                   Inl e \<Rightarrow> (Inl e, registered w)
                 | Inr w' \<Rightarrow> (Inr (), registered w'))"
    using unlock_auto_open [of m name api fs w now now' password] by blast
next
  fix w
  assume "map_of (wallets (check_timeout api now m)) name = Some w"
  then show "unlock api now now' name password fs m =
        (let m1 = check_timeout api now m
         in if \<not> w_is_locked api w then (Inl wallet_unlocked_exception, m1)
            else case w_unlock api w password of
                   Inl e \<Rightarrow> (Inl e, m1)
                 | Inr w' \<Rightarrow> (Inr (), m1\<lparr>wallets := assign name w' (wallets m1)\<rparr>))"
    by (simp add: unlock_registered Let_def)
qed

theorem unlock_outcomes_witness:
  "unlock soft_api 7 8 ''a/b'' ''PWa'' ex_files ex_manager =
     (Inl wallet_exception, check_timeout soft_api 8 (check_timeout soft_api 7 ex_manager)) \<and>
   unlock soft_api 7 8 ''carol'' ''PWa'' ex_files ex_manager =
     (Inl wallet_nonexistent_exception,
      check_timeout soft_api 8 (check_timeout soft_api 7 ex_manager)) \<and>
   fst (unlock soft_api 7 8 ''bob'' ''PWbob'' ex_files ex_manager) = Inr () \<and>
   fst (unlock soft_api 7 8 ''bob'' ''nope'' ex_files ex_manager) =
     Inl wallet_invalid_password_exception \<and>
   fst (unlock soft_api 7 8 ''a'' ''PWa'' ex_files ex_manager) = Inl wallet_unlocked_exception \<and>
   fst (unlock soft_api 7 8 ''vault'' ''PWv'' ex_files ex_manager) = Inr ()"
proof -
  note T = unlock_outcomes [where api = soft_api and now = 7 and now' = 8 and fs = ex_files
      and m = ex_manager]
  have h1: "map_of (wallets ex_manager) ''a/b'' = None \<and> \<not> valid_filename ''a/b''"
    by (simp add: ex_defs name_defs)
  have h2: "map_of (wallets ex_manager) ''carol'' = None \<and> valid_filename ''carol'' \<and>
      loaded_wallet soft_api ''carol'' ex_files ex_manager = None"
    by (simp add: ex_defs name_defs loaded_wallet_def sw_defs)
  have h3: "map_of (wallets ex_manager) ''bob'' = None \<and> valid_filename ''bob'' \<and>
      loaded_wallet soft_api ''bob'' ex_files ex_manager = Some ex_bob"
    by (simp add: ex_defs name_defs loaded_wallet_def sw_defs)
  have h4: "map_of (wallets (check_timeout soft_api 7 ex_manager)) ''a'' = Some ex_a"
    by (simp add: ex_defs time_defs)
  have h5: "map_of (wallets (check_timeout soft_api 7 ex_manager)) ''vault'' = Some ex_vault"
    by (simp add: ex_defs time_defs)
  have bob: "w_is_locked soft_api ex_bob"
    "w_unlock soft_api ex_bob ''PWbob'' = Inr (ex_bob\<lparr>sw_locked := False\<rparr>)"
    "w_unlock soft_api ex_bob ''nope'' = Inl wallet_invalid_password_exception"
    by (simp_all add: ex_bob_def sw_defs)
  have a: "\<not> w_is_locked soft_api ex_a"
    by (simp add: ex_defs sw_defs)
  have v: "w_is_locked soft_api ex_vault"
    "w_unlock soft_api ex_vault ''PWv'' = Inr (ex_vault\<lparr>sw_locked := False\<rparr>)"
    by (simp_all add: ex_defs sw_defs)
  note c1 = T [THEN conjunct1, rule_format, OF h1]
  note c2 = T [THEN conjunct2, THEN conjunct1, rule_format, OF h2]
  have c3: "fst (unlock soft_api 7 8 ''bob'' ''PWbob'' ex_files ex_manager) = Inr ()"
    unfolding T [THEN conjunct2, THEN conjunct2, THEN conjunct1, rule_format, OF h3]
    by (simp add: Let_def bob)
  have c4: "fst (unlock soft_api 7 8 ''bob'' ''nope'' ex_files ex_manager) =
      Inl wallet_invalid_password_exception"
    unfolding T [THEN conjunct2, THEN conjunct2, THEN conjunct1, rule_format, OF h3]
    by (simp add: Let_def bob)
  have c5: "fst (unlock soft_api 7 8 ''a'' ''PWa'' ex_files ex_manager) =
      Inl wallet_unlocked_exception"
    unfolding T [THEN conjunct2, THEN conjunct2, THEN conjunct2, rule_format, OF h4]
    by (simp add: Let_def a)
  have c6: "fst (unlock soft_api 7 8 ''vault'' ''PWv'' ex_files ex_manager) = Inr ()"
    unfolding T [THEN conjunct2, THEN conjunct2, THEN conjunct2, rule_format, OF h5]
    by (simp add: Let_def v)
  from c1 c2 c3 c4 c5 c6 show ?thesis by (intro conjI)
qed

text \<open>
  The claim as stated has \<^verbatim>\<open>unlock\<close> of an unregistered name fail with
  \<open>wallet_nonexistent_exception\<close> whenever the name is still unregistered after the
  attempted \<^verbatim>\<open>open\<close>. The name \<^verbatim>\<open>a/b\<close> is not registered and stays unregistered, and
  \<^verbatim>\<open>unlock\<close> fails with \<open>wallet_exception\<close>.
\<close>

theorem unlock_invalid_name_counterexample:
  "map_of (wallets ex_manager) ''a/b'' = None \<and>
   unlock soft_api 7 7 ''a/b'' ''PWa'' ex_files ex_manager =
     (Inl wallet_exception, ex_manager\<lparr>timeout_time := 12\<rparr>) \<and>
   map_of (wallets (snd (unlock soft_api 7 7 ''a/b'' ''PWa'' ex_files ex_manager))) ''a/b'' = None \<and>
   wallet_exception \<noteq> wallet_nonexistent_exception"
  by (simp add: unlock_def open_def valid_filename_def is_alnum_def is_any_of_def
      ex_defs sw_defs time_defs)

text \<open>
  C9. When the name is not registered, the wallet file loads and yields a locked wallet, and
  the wallet's \<^verbatim>\<open>unlock\<close> rejects the password, \<^verbatim>\<open>unlock\<close> fails with
  \<open>wallet_invalid_password_exception\<close> (BadPassword) and leaves the loaded wallet
  registered under the name, at the end of the registry, and locked.
\<close>

theorem unlock_bad_password_after_auto_open:
  fixes api :: "('w, 'fs) wallet_api"
  assumes "map_of (wallets m) name = None"
    and "valid_filename name"
    and "loaded_wallet api name fs m = Some w"
    and "w_is_locked api w"
    and "w_unlock api w password = Inl wallet_invalid_password_exception"
  shows "unlock api now now' name password fs m =
           (Inl wallet_invalid_password_exception,
            (check_timeout api now' (check_timeout api now m))
              \<lparr>wallets := wallets (check_timeout api now' (check_timeout api now m)) @ [(name, w)]\<rparr>) \<and>
         map_of (wallets (snd (unlock api now now' name password fs m))) name = Some w \<and>
         w_is_locked api w"
proof -
  let ?m2 = "check_timeout api now' (check_timeout api now m)"
  have u: "map_of (wallets ?m2) name = None"
    using assms(1) by (simp add: registered_check_timeout)
  have r: "unlock api now now' name password fs m =
      (Inl wallet_invalid_password_exception, ?m2\<lparr>wallets := wallets ?m2 @ [(name, w)]\<rparr>)"
    using assms(4,5) by (simp add: unlock_auto_open [OF assms(1,2,3)] Let_def)
  show ?thesis
    using assms(4) by (simp add: r map_of_snoc_new [OF u] del: map_of_append)
qed

theorem unlock_bad_password_after_auto_open_witness:
  "unlock soft_api 7 8 ''bob'' ''nope'' ex_files ex_manager =
     (Inl wallet_invalid_password_exception,
      (check_timeout soft_api 8 (check_timeout soft_api 7 ex_manager))
        \<lparr>wallets := wallets (check_timeout soft_api 8 (check_timeout soft_api 7 ex_manager)) @
                     [(''bob'', ex_bob)]\<rparr>) \<and>
   map_of (wallets (snd (unlock soft_api 7 8 ''bob'' ''nope'' ex_files ex_manager))) ''bob'' =
     Some ex_bob \<and>
   w_is_locked soft_api ex_bob"
proof -
  have h1: "map_of (wallets ex_manager) ''bob'' = None"
    by (simp add: ex_defs)
  have h2: "valid_filename ''bob''"
    by (simp add: name_defs)
  have h3: "loaded_wallet soft_api ''bob'' ex_files ex_manager = Some ex_bob"
    by (simp add: ex_defs name_defs loaded_wallet_def sw_defs)
  have h4: "w_is_locked soft_api ex_bob"
    by (simp add: ex_bob_def sw_defs)
  have h5: "w_unlock soft_api ex_bob ''nope'' = Inl wallet_invalid_password_exception"
    by (simp add: ex_bob_def sw_defs)
  show ?thesis
    by (rule unlock_bad_password_after_auto_open [OF h1 h2 h3 h4 h5])
qed

subsection \<open>Creating a wallet\<close>

lemma create_succeeds:
  assumes "create api now key name fs m = (Inr password, m1, fs1)"
  shows "valid_filename name \<and>
     \<not> fc_exists api fs (path_append (dir m) (name @ file_ext)) \<and>
     password = gen_password key \<and>
     (\<exists>wallet1 wallet2.
        w_unlock api (w_lock api wallet1) password = Inr wallet2 \<and>
        m1 = (check_timeout api now m)
               \<lparr>wallets := erase name (wallets (check_timeout api now m)) @ [(name, wallet2)]\<rparr> \<and>
        fs1 = w_save_wallet_file api wallet2 fs)"
proof -
  let ?m1 = "check_timeout api now m"
  have e: "(if map_of (wallets ?m1) name \<noteq> None then erase name (wallets ?m1) else wallets ?m1) =
      erase name (wallets ?m1)"
    by (simp add: erase_unregistered)
  have p: "emplace name w (erase name (wallets ?m1)) = erase name (wallets ?m1) @ [(name, w)]" for w
    by (simp add: emplace_def map_of_erase)
  from assms show ?thesis
    unfolding create_def Let_def e p
    by (auto simp: check_timeout_other_fields split: if_splits sum.splits)
qed

lemma lock_unlocked_wallet:
  assumes "\<forall>w. w_is_locked api (w_lock api w)"
    and "map_of (wallets m) name = Some w" and "\<not> w_is_locked api w"
  shows "\<exists>m2. lock api now name m = (Inr (), m2) \<and> map_of (wallets m2) name = Some (w_lock api w)"
proof -
  let ?m1 = "check_timeout api now m"
  from map_of_check_timeout_unlocked [OF assms(2,3), of now]
  show ?thesis
  proof
    assume a: "map_of (wallets ?m1) name = Some w"
    with assms(3) show ?thesis
      by (simp add: lock_def Let_def map_of_assign)
  next
    assume a: "map_of (wallets ?m1) name = Some (w_lock api w)"
    with assms(1) show ?thesis
      by (simp add: lock_def Let_def)
  qed
qed

text \<open>
  C5. Take a capability whose \<^verbatim>\<open>unlock\<close>, when it succeeds, leaves the wallet unlocked,
  whose \<^verbatim>\<open>lock\<close> leaves it locked, and for which a password that has unlocked a wallet
  unlocks it again after a \<^verbatim>\<open>lock\<close>. If \<^verbatim>\<open>create(name)\<close> succeeds, then the name is a
  valid file name whose wallet file did not exist, the password returned is the generated
  one, and the wallet is registered under the name and unlocked. A following
  \<^verbatim>\<open>lock(name)\<close>, at any time, succeeds and leaves the wallet locked, and a following
  \<^verbatim>\<open>unlock(name, password)\<close> with the returned password, at any time, succeeds and leaves
  the wallet unlocked.
\<close>

theorem create_round_trip:
  fixes api :: "('w, 'fs) wallet_api"
  assumes "\<forall>w p w'. w_unlock api w p = Inr w' \<longrightarrow> \<not> w_is_locked api w'"
    and "\<forall>w. w_is_locked api (w_lock api w)"
    and "\<forall>w p w'. w_unlock api w p = Inr w' \<longrightarrow> (\<exists>w''. w_unlock api (w_lock api w') p = Inr w'')"
    and "create api now key name fs m = (Inr password, m1, fs1)"
  shows "valid_filename name \<and>
     \<not> fc_exists api fs (path_append (dir m) (name @ file_ext)) \<and>
     password = gen_password key \<and>
     (\<exists>w. map_of (wallets m1) name = Some w \<and> \<not> w_is_locked api w) \<and>
     (\<exists>m2 m3 w2 w3.
        lock api now1 name m1 = (Inr (), m2) \<and>
        map_of (wallets m2) name = Some w2 \<and> w_is_locked api w2 \<and>
        unlock api now2 now2' name password fs2 m2 = (Inr (), m3) \<and>
        map_of (wallets m3) name = Some w3 \<and> \<not> w_is_locked api w3)"
proof -
  from create_succeeds [OF assms(4)] obtain wallet1 wallet2 where
    v: "valid_filename name" "\<not> fc_exists api fs (path_append (dir m) (name @ file_ext))"
      "password = gen_password key"
    and u: "w_unlock api (w_lock api wallet1) password = Inr wallet2"
    and m1: "m1 = (check_timeout api now m)
               \<lparr>wallets := erase name (wallets (check_timeout api now m)) @ [(name, wallet2)]\<rparr>"
    by blast
  have reg: "map_of (wallets m1) name = Some wallet2"
    unfolding m1 by (simp add: map_of_snoc_new map_of_erase del: map_of_append)
  have unl: "\<not> w_is_locked api wallet2"
    using assms(1) u by blast
  from lock_unlocked_wallet [OF assms(2) reg unl, of now1] obtain m2 where
    l: "lock api now1 name m1 = (Inr (), m2)"
      "map_of (wallets m2) name = Some (w_lock api wallet2)"
    by blast
  have lk: "w_is_locked api (w_lock api wallet2)"
    using assms(2) by blast
  from assms(3) u obtain w3 where
    u3: "w_unlock api (w_lock api wallet2) password = Inr w3"
    by blast
  have r2: "map_of (wallets (check_timeout api now2 m2)) name = Some (w_lock api wallet2)"
    using l(2) lk by (rule map_of_check_timeout_locked)
  have un: "unlock api now2 now2' name password fs2 m2 =
      (Inr (), (check_timeout api now2 m2)
                 \<lparr>wallets := assign name w3 (wallets (check_timeout api now2 m2))\<rparr>)"
    using lk u3 by (simp add: unlock_registered [OF r2])
  have r3: "map_of (wallets ((check_timeout api now2 m2)
                 \<lparr>wallets := assign name w3 (wallets (check_timeout api now2 m2))\<rparr>)) name = Some w3"
    using r2 by (simp add: map_of_assign)
  have u3': "\<not> w_is_locked api w3"
    using assms(1) u3 by blast
  from v reg unl l lk un r3 u3' show ?thesis by blast
qed

theorem create_round_trip_witness:
  "create soft_api 7 ''key'' ''alice'' ex_files ex_manager =
     (Inr ''PWkey'', ex_created, snd (snd (create soft_api 7 ''key'' ''alice'' ex_files ex_manager))) \<and>
   (\<exists>w. map_of (wallets ex_created) ''alice'' = Some w \<and> \<not> w_is_locked soft_api w) \<and>
   (\<exists>m2 m3 w2 w3.
      lock soft_api 9 ''alice'' ex_created = (Inr (), m2) \<and>
      map_of (wallets m2) ''alice'' = Some w2 \<and> w_is_locked soft_api w2 \<and>
      unlock soft_api 100 101 ''alice'' ''PWkey'' ex_files m2 = (Inr (), m3) \<and>
      map_of (wallets m3) ''alice'' = Some w3 \<and> \<not> w_is_locked soft_api w3)"
proof -
  have h1: "\<forall>w p w'. w_unlock soft_api w p = Inr w' \<longrightarrow> \<not> w_is_locked soft_api w'"
    by (auto simp: sw_defs split: if_splits)
  have h2: "\<forall>w. w_is_locked soft_api (w_lock soft_api w)"
    by (simp add: sw_defs)
  have h3: "\<forall>w p w'. w_unlock soft_api w p = Inr w' \<longrightarrow>
      (\<exists>w''. w_unlock soft_api (w_lock soft_api w') p = Inr w'')"
    by (auto simp: sw_defs split: if_splits)
  have "fst (create soft_api 7 ''key'' ''alice'' ex_files ex_manager) = Inr ''PWkey''"
    by (simp add: create_def name_defs gen_password_def password_prefix_def ex_defs sw_defs
        time_defs)
  then have h4: "create soft_api 7 ''key'' ''alice'' ex_files ex_manager =
     (Inr ''PWkey'', ex_created, snd (snd (create soft_api 7 ''key'' ''alice'' ex_files ex_manager)))"
    unfolding ex_created_def by (metis prod.collapse)
  from create_round_trip [OF h1 h2 h3 h4, of 9 100 101 ex_files] h4
  show ?thesis by blast
qed

subsection \<open>The timeout\<close>

text \<open>
  C2 (as amended). The operations \<^verbatim>\<open>create\<close>, \<^verbatim>\<open>open\<close>, \<^verbatim>\<open>list_wallets\<close>,
  \<^verbatim>\<open>list_keys\<close>, \<^verbatim>\<open>get_public_keys\<close>, \<^verbatim>\<open>get_my_signatures\<close>, \<^verbatim>\<open>lock\<close>, \<^verbatim>\<open>unlock\<close>,
  \<^verbatim>\<open>import_key\<close>, \<^verbatim>\<open>remove_key\<close>, \<^verbatim>\<open>create_key\<close>, \<^verbatim>\<open>sign_transaction\<close> and
  \<^verbatim>\<open>sign_digest\<close> perform the \<^verbatim>\<open>check_timeout\<close> step first: what they do depends on the
  manager only through the state that \<^verbatim>\<open>check_timeout\<close> leaves, so two managers that
  \<^verbatim>\<open>check_timeout\<close> maps to the same state give the same outcome, and the operations that
  only observe leave exactly that state behind. \<^verbatim>\<open>check_timeout\<close> does nothing when the
  expiry is the sentinel \<open>timepoint_max\<close>; otherwise it locks every unlocked wallet
  if the current time has reached the expiry, and sets the expiry to now plus the
  configured duration. (\<^verbatim>\<open>set_timeout\<close>, \<^verbatim>\<open>own_and_use_wallet\<close> and \<^verbatim>\<open>lock_all\<close> do not
  perform the step.)
\<close>

theorem checked_operations_check_timeout_first:
  fixes api :: "('w, 'fs) wallet_api"
  assumes "check_timeout api now m = check_timeout api now m'"
  shows "create api now key name fs m = create api now key name fs m' \<and>
     open api now name fs m = open api now name fs m' \<and>
     list_wallets api now m = list_wallets api now m' \<and>
     list_keys api now name password m = list_keys api now name password m' \<and>
     get_public_keys api now m = get_public_keys api now m' \<and>
     get_my_signatures api now chain_id m = get_my_signatures api now chain_id m' \<and>
     lock api now name m = lock api now name m' \<and>
     unlock api now now' name password fs m = unlock api now now' name password fs m' \<and>
     import_key api now name wif_key m = import_key api now name wif_key m' \<and>
     remove_key api now name password pk m = remove_key api now name password pk m' \<and>
     create_key api now name key_type m = create_key api now name key_type m' \<and>
     sign_transaction api now txn keys chain_id m = sign_transaction api now txn keys chain_id m' \<and>
     sign_digest api now digest pk m = sign_digest api now digest pk m' \<and>
     snd (list_wallets api now m) = check_timeout api now m \<and>
     snd (list_keys api now name password m) = check_timeout api now m \<and>
     snd (get_public_keys api now m) = check_timeout api now m \<and>
     snd (get_my_signatures api now chain_id m) = check_timeout api now m \<and>
     snd (sign_transaction api now txn keys chain_id m) = check_timeout api now m \<and>
     snd (sign_digest api now digest pk m) = check_timeout api now m \<and>
     check_timeout api now m =
       (if timeout_time m = timepoint_max then m
        else (if timeout_time m \<le> now then lock_all api m else m)
               \<lparr>timeout_time := tp_plus now (timeout m)\<rparr>) \<and>
     lock_all api m =
       m\<lparr>wallets := map (\<lambda>i. if w_is_locked api (snd i) then i else (fst i, w_lock api (snd i)))
                        (wallets m)\<rparr>"
proof -
  have 1: "create api now key name fs m = create api now key name fs m'"
    by (simp add: create_def assms)
  have 2: "open api now name fs m = open api now name fs m'"
    by (simp add: open_def assms)
  have 3: "list_wallets api now m = list_wallets api now m'"
    by (simp add: list_wallets_def assms)
  have 4: "list_keys api now name password m = list_keys api now name password m'"
    by (simp add: list_keys_def assms)
  have 5: "get_public_keys api now m = get_public_keys api now m'"
    by (simp add: get_public_keys_def assms)
  have 6: "get_my_signatures api now chain_id m = get_my_signatures api now chain_id m'"
    by (simp add: get_my_signatures_def assms)
  have 7: "lock api now name m = lock api now name m'"
    by (simp add: lock_def assms)
  have 8: "unlock api now now' name password fs m = unlock api now now' name password fs m'"
    by (simp add: unlock_def assms)
  have 9: "import_key api now name wif_key m = import_key api now name wif_key m'"
    by (simp add: import_key_def assms)
  have 10: "remove_key api now name password pk m = remove_key api now name password pk m'"
    by (simp add: remove_key_def assms)
  have 11: "create_key api now name key_type m = create_key api now name key_type m'"
    by (simp add: create_key_def assms)
  have 12: "sign_transaction api now txn keys chain_id m =
      sign_transaction api now txn keys chain_id m'"
    by (simp add: sign_transaction_def assms)
  have 13: "sign_digest api now digest pk m = sign_digest api now digest pk m'"
    by (simp add: sign_digest_def assms)
  have 14: "snd (list_wallets api now m) = check_timeout api now m"
    by (simp add: list_wallets_def Let_def)
  have 15: "snd (list_keys api now name password m) = check_timeout api now m"
    by (simp add: list_keys_def Let_def split: option.splits sum.splits)
  have 16: "snd (get_public_keys api now m) = check_timeout api now m"
    by (simp add: get_public_keys_def Let_def split: prod.splits)
  have 17: "snd (get_my_signatures api now chain_id m) = check_timeout api now m"
    by (simp add: get_my_signatures_def Let_def split: prod.splits)
  have 18: "snd (sign_transaction api now txn keys chain_id m) = check_timeout api now m"
    by (simp add: sign_transaction_def Let_def)
  have 19: "snd (sign_digest api now digest pk m) = check_timeout api now m"
    by (simp add: sign_digest_def Let_def split: option.splits)
  have 20: "check_timeout api now m =
       (if timeout_time m = timepoint_max then m
        else (if timeout_time m \<le> now then lock_all api m else m)
               \<lparr>timeout_time := tp_plus now (timeout m)\<rparr>)"
    by (simp add: check_timeout_def Let_def lock_all_other_fields)
  have 21: "lock_all api m =
       m\<lparr>wallets := map (\<lambda>i. if w_is_locked api (snd i) then i else (fst i, w_lock api (snd i)))
                        (wallets m)\<rparr>"
    by (simp add: lock_all_def if_distrib [of Not] cong: if_cong) 
  from 1 2 3 4 5 6 7 8 9 10 11 12 13 14 15 16 17 18 19 20 21 show ?thesis
    by (intro conjI)
qed

theorem checked_operations_check_timeout_first_witness:
  "check_timeout soft_api 100 ex_manager = check_timeout soft_api 100 (lock_all soft_api ex_manager) \<and>
   ex_manager \<noteq> lock_all soft_api ex_manager \<and>
   list_wallets soft_api 100 ex_manager = list_wallets soft_api 100 (lock_all soft_api ex_manager) \<and>
   get_public_keys soft_api 100 ex_manager =
     get_public_keys soft_api 100 (lock_all soft_api ex_manager) \<and>
   unlock soft_api 100 101 ''a'' ''PWa'' ex_files ex_manager =
     unlock soft_api 100 101 ''a'' ''PWa'' ex_files (lock_all soft_api ex_manager) \<and>
   sign_digest soft_api 100 ''dd'' ''K'' ex_manager =
     sign_digest soft_api 100 ''dd'' ''K'' (lock_all soft_api ex_manager) \<and>
   snd (sign_digest soft_api 100 ''dd'' ''K'' ex_manager) = check_timeout soft_api 100 ex_manager"
proof -
  have h: "check_timeout soft_api 100 ex_manager =
      check_timeout soft_api 100 (lock_all soft_api ex_manager)"
    by (simp add: ex_defs sw_defs time_defs)
  have d: "ex_manager \<noteq> lock_all soft_api ex_manager"
    by (simp add: ex_defs sw_defs lock_all_def)
  note T = checked_operations_check_timeout_first [OF h, where name = "''a''"
      and password = "''PWa''" and fs = ex_files and now' = 101 and digest = "''dd''"
      and pk = "''K''" and key = "''key''" and chain_id = "''c''" and wif_key = "''wif''"
      and key_type = "''k1''" and txn = ex_txn and keys = "[''K'']"]
  have c3: "list_wallets soft_api 100 ex_manager =
      list_wallets soft_api 100 (lock_all soft_api ex_manager)"
    using T by blast
  have c5: "get_public_keys soft_api 100 ex_manager =
     get_public_keys soft_api 100 (lock_all soft_api ex_manager)"
    using T by blast
  have c8: "unlock soft_api 100 101 ''a'' ''PWa'' ex_files ex_manager =
     unlock soft_api 100 101 ''a'' ''PWa'' ex_files (lock_all soft_api ex_manager)"
    using T by blast
  have c13: "sign_digest soft_api 100 ''dd'' ''K'' ex_manager =
     sign_digest soft_api 100 ''dd'' ''K'' (lock_all soft_api ex_manager)"
    using T by blast
  have c19: "snd (sign_digest soft_api 100 ''dd'' ''K'' ex_manager) =
      check_timeout soft_api 100 ex_manager"
    using T by blast
  from h d c3 c5 c8 c13 c19 show ?thesis by (intro conjI)
qed

text \<open>
  The claim as stated covers every state-mutating operation but \<^verbatim>\<open>lock_all\<close>. In the
  example the expiry (tick 10) is enabled and wallet \<open>a\<close> is unlocked. \<^verbatim>\<open>set_timeout\<close>
  at tick 100 only moves the expiry, and \<^verbatim>\<open>own_and_use_wallet\<close> only adds the new wallet
  and leaves the expiry at tick 10: neither locks wallet \<open>a\<close>, which \<^verbatim>\<open>check_timeout\<close>
  at tick 100 does.
\<close>

theorem unchecked_operations_counterexample:
  "timeout_time ex_manager = 10 \<and> timeout_time ex_manager \<noteq> timepoint_max \<and>
   map_of (wallets ex_manager) ''a'' = Some ex_a \<and> \<not> w_is_locked soft_api ex_a \<and>
   set_timeout 100 5 ex_manager = (Inr (), ex_manager\<lparr>timeout_time := 105\<rparr>) \<and>
   own_and_use_wallet ''bob'' ex_bob ex_manager =
     (Inr (), ex_manager\<lparr>wallets := wallets ex_manager @ [(''bob'', ex_bob)]\<rparr>) \<and>
   map_of (wallets (check_timeout soft_api 100 ex_manager)) ''a'' = Some (w_lock soft_api ex_a) \<and>
   w_lock soft_api ex_a \<noteq> ex_a"
  by (simp add: set_timeout_def own_and_use_wallet_def emplace_def ex_defs sw_defs time_defs)



















end
